theory Spec2Isabelle
  imports Main
begin

section \<open>Values of the program\<close>

text \<open>
  The module \<^verbatim>\<open>lib/api/readable.js\<close> defines the class \<^verbatim>\<open>BodyReadable\<close>, a
  Node \<^verbatim>\<open>Readable\<close> whose body can be consumed once, and the two module functions
  \<^verbatim>\<open>start\<close> and \<^verbatim>\<open>consume\<close>.

  A chunk is a \<^verbatim>\<open>Buffer\<close>: an object, hence truthy even when it holds no byte. Its
  bytes are written as a HOL string. The end sentinel \<^verbatim>\<open>null\<close> is \<open>None\<close>, a chunk
  \<open>c\<close> is \<open>Some c\<close>.
\<close>

type_synonym chunk = string

datatype js_error =
    TypeError string
  | AbortError
  | AssertionError
  | RangeError
  | Error string

datatype 'a outcome = Returns 'a | Throws js_error

text \<open>
  Two primitives of the platform are parameters of the model: \<^verbatim>\<open>JSON.parse\<close>, and
  \<^verbatim>\<open>Buffer.prototype.toString\<close>, the UTF-8 decoding that \<^verbatim>\<open>+=\<close> applies to a
  chunk. Each chunk is decoded on its own.
\<close>

record 'j platform =
  JSON_parse :: "string \<Rightarrow> js_error + 'j"
  Buffer_toString :: "chunk \<Rightarrow> string"

text \<open>The five type constants \<^verbatim>\<open>kWebStreamType = 1\<close> ... \<^verbatim>\<open>kJSONType = 5\<close>.\<close>

datatype consume_type =
    kWebStreamType
  | kTextType
  | kBlobType
  | kArrayBufferType
  | kJSONType

section \<open>The platform objects the module builds on\<close>

subsection \<open>The controller of a web \<^verbatim>\<open>ReadableStream\<close>\<close>

text \<open>
  \<^verbatim>\<open>stream/web\<close> is the platform's, not this module's. Its default controller is
  modelled as far as \<^verbatim>\<open>push\<close> uses it: a queue of enqueued views, the close request,
  the state of the stream and the high-water mark. The module passes
  \<^verbatim>\<open>{ highWaterMark: 16 * 1024 }\<close> and no size function, so every queued chunk
  counts 1. \<^verbatim>\<open>enqueue\<close> and \<^verbatim>\<open>close\<close> throw a \<^verbatim>\<open>TypeError\<close> once a close was
  requested or the stream is no longer readable; \<^verbatim>\<open>desiredSize\<close> is \<^verbatim>\<open>null\<close> on
  an errored stream and 0 on a closed one. Reads by the consumer of the web stream are
  not operations of this module; the theorems below hold for every queue.
\<close>

datatype rs_state = Readable | Closed | Errored js_error

record controller =
  queue :: "chunk list"
  closeRequested :: bool
  rs_state :: rs_state
  highWaterMark :: int

definition new_controller :: "int \<Rightarrow> controller" where
  "new_controller hwm =
     \<lparr>queue = [], closeRequested = False, rs_state = Readable, highWaterMark = hwm\<rparr>"

definition canCloseOrEnqueue :: "controller \<Rightarrow> bool" where
  "canCloseOrEnqueue c \<longleftrightarrow> \<not> closeRequested c \<and> rs_state c = Readable"

definition enqueue :: "chunk \<Rightarrow> controller \<Rightarrow> js_error + controller" where
  "enqueue v c =
     (if canCloseOrEnqueue c then Inr (c\<lparr>queue := queue c @ [v]\<rparr>)
      else Inl (TypeError ''Invalid state: Controller is already closed''))"

definition close :: "controller \<Rightarrow> js_error + controller" where
  "close c =
     (if canCloseOrEnqueue c
      then Inr (c\<lparr>closeRequested := True,
                  rs_state := (if queue c = [] then Closed else rs_state c)\<rparr>)
      else Inl (TypeError ''Invalid state: Controller is already closed''))"

definition desiredSize :: "controller \<Rightarrow> int option" where
  "desiredSize c =
     (case rs_state c of
        Errored e \<Rightarrow> None
      | Closed \<Rightarrow> Some 0
      | Readable \<Rightarrow> Some (highWaterMark c - int (length (queue c))))"

text \<open>\<^verbatim>\<open>x > 0\<close> where \<^verbatim>\<open>x\<close> is a number or \<^verbatim>\<open>null\<close>.\<close>

definition gt_zero :: "int option \<Rightarrow> bool" where
  "gt_zero d = (case d of None \<Rightarrow> False | Some n \<Rightarrow> 0 < n)"

text \<open>\<^verbatim>\<open>new Uint8Array(val)\<close> on a buffer: a fresh array with the same bytes.\<close>

definition Uint8Array :: "chunk \<Rightarrow> chunk" where
  "Uint8Array val = val"

subsection \<open>The base class \<^verbatim>\<open>Readable\<close>\<close>

text \<open>
  Node's \<^verbatim>\<open>Readable\<close> is the platform's. Its state is modelled with the fields that the
  module reads and those that decide what a push or a read does at once:
  \<^verbatim>\<open>_readableState.buffer\<close> (the backlog of chunks received and not yet read),
  \<^verbatim>\<open>.length\<close> (the number of bytes the base class counts in the backlog; the base
  class alone keeps it, so it stays as it is when the module shifts chunks out of
  \<^verbatim>\<open>buffer\<close>), \<^verbatim>\<open>.ended\<close>, \<^verbatim>\<open>.endEmitted\<close>, \<^verbatim>\<open>.destroyed\<close>, \<^verbatim>\<open>.errored\<close>,
  \<^verbatim>\<open>.flowing\<close> (\<^verbatim>\<open>null\<close>, \<^verbatim>\<open>true\<close> or \<^verbatim>\<open>false\<close>), \<^verbatim>\<open>.sync\<close>,
  \<^verbatim>\<open>.reading\<close>, \<^verbatim>\<open>.readableListening\<close>, \<^verbatim>\<open>.autoDestroy\<close>,
  \<^verbatim>\<open>.highWaterMark\<close>, \<^verbatim>\<open>readableDidRead\<close> (absent on older platforms, hence
  optional) and the listeners. \<open>emitted\<close> lists the chunks handed to the \<^verbatim>\<open>data\<close>
  listeners, \<open>readCalls\<close> counts the calls of \<^verbatim>\<open>_read\<close>.

  The primitives are modelled by what they do before they return. What the base class
  queues for a later tick (the start of the flow after \<^verbatim>\<open>resume\<close>, the emission of
  \<^verbatim>\<open>readable\<close>, \<^verbatim>\<open>end\<close>, \<^verbatim>\<open>error\<close> and \<^verbatim>\<open>close\<close>, reading more) is not run, and
  the flag \<^verbatim>\<open>needReadable\<close>, which only schedules such work or asks the producer for
  more above the high-water mark, is left out.
\<close>

datatype listener =
  Reject | ControllerError | EndTeardown | PipeOnData | PipeOnEnd | UserFn nat

record readable =
  buffer :: "chunk list"
  state_length :: nat
  ended :: bool
  endEmitted :: bool
  destroyed :: bool
  errored :: "js_error option"
  readableDidRead :: "bool option"
  listeners :: "(string \<times> listener) list"
  flowing :: "bool option"
  sync :: bool
  reading :: bool
  readableListening :: bool
  autoDestroy :: bool
  readCalls :: nat
  readableHighWaterMark :: nat
  emitted :: "chunk list"

definition listenerCount :: "string \<Rightarrow> 'a readable_scheme \<Rightarrow> nat" where
  "listenerCount ev r = length (filter (\<lambda>p. fst p = ev) (listeners r))"

text \<open>
  \<^verbatim>\<open>_read\<close> is the hook the producer supplies through the constructor options; it asks
  the producer for more and the producer answers with later calls of \<^verbatim>\<open>push\<close>. The
  model counts the requests.
\<close>

definition read_hook :: "'a readable_scheme \<Rightarrow> 'a readable_scheme" where
  "read_hook r = r\<lparr>readCalls := Suc (readCalls r)\<rparr>"

text \<open>\<^verbatim>\<open>Readable.prototype.destroy\<close>: the first call sets the flag and keeps the first error.\<close>

definition Readable_destroy :: "js_error option \<Rightarrow> 'a readable_scheme \<Rightarrow> 'a readable_scheme" where
  "Readable_destroy err r =
     (if destroyed r then r
      else r\<lparr>destroyed := True,
             errored := (case errored r of None \<Rightarrow> err | Some e \<Rightarrow> Some e)\<rparr>)"

text \<open>
  \<^verbatim>\<open>errorOrDestroy\<close>: an error the base class finds goes to the method \<^verbatim>\<open>destroy\<close>
  of the object, \<open>dstr\<close>, unless the stream is destroyed already or \<^verbatim>\<open>autoDestroy\<close>
  is off.
\<close>

definition errorOrDestroy ::
  "(js_error option \<Rightarrow> 'a readable_scheme \<Rightarrow> 'a readable_scheme) \<Rightarrow> js_error
     \<Rightarrow> 'a readable_scheme \<Rightarrow> 'a readable_scheme" where
  "errorOrDestroy dstr e r =
     (if destroyed r then r
      else if autoDestroy r then dstr (Some e) r
      else (case errored r of None \<Rightarrow> r\<lparr>errored := Some e\<rparr> | Some e' \<Rightarrow> r))"

definition push_after_EOF :: js_error where
  "push_after_EOF = Error ''stream.push() after EOF''"

text \<open>The result of \<^verbatim>\<open>push\<close>: whether more data is wanted.\<close>

definition wants_more :: "'a readable_scheme \<Rightarrow> bool" where
  "wants_more r \<longleftrightarrow>
     \<not> ended r \<and> (state_length r < readableHighWaterMark r \<or> state_length r = 0)"

text \<open>
  \<^verbatim>\<open>addChunk\<close>: a flowing stream that holds nothing, is not inside a call of
  \<^verbatim>\<open>_read\<close> and has a \<^verbatim>\<open>data\<close> listener hands the chunk to the listeners at once;
  otherwise the chunk joins the backlog.
\<close>

definition addChunk :: "chunk \<Rightarrow> 'a readable_scheme \<Rightarrow> 'a readable_scheme" where
  "addChunk c r =
     (if flowing r = Some True \<and> state_length r = 0 \<and> \<not> sync r \<and> 0 < listenerCount ''data'' r
      then r\<lparr>readableDidRead := map_option (\<lambda>b. True) (readableDidRead r),
             emitted := emitted r @ [c]\<rparr>
      else r\<lparr>state_length := state_length r + length c, buffer := buffer r @ [c]\<rparr>)"

text \<open>
  \<^verbatim>\<open>Readable.prototype.push\<close>. \<^verbatim>\<open>null\<close> marks the end. A chunk that holds bytes is an
  error after the end (the stream is destroyed with it), is refused with \<^verbatim>\<open>false\<close> on a
  destroyed or errored stream, and is added otherwise. A chunk without bytes is dropped.
\<close>

definition Readable_push ::
  "(js_error option \<Rightarrow> 'a readable_scheme \<Rightarrow> 'a readable_scheme) \<Rightarrow> chunk option
     \<Rightarrow> 'a readable_scheme \<Rightarrow> bool \<times> 'a readable_scheme" where
  "Readable_push dstr val r =
     (case val of
        None \<Rightarrow> (False, r\<lparr>reading := False, ended := True\<rparr>)
      | Some c \<Rightarrow>
          if c = [] then (wants_more r, r\<lparr>reading := False\<rparr>)
          else if ended r then (False, errorOrDestroy dstr push_after_EOF r)
          else if destroyed r \<or> errored r \<noteq> None then (False, r)
          else (wants_more (addChunk c (r\<lparr>reading := False\<rparr>)),
                addChunk c (r\<lparr>reading := False\<rparr>)))"

text \<open>
  \<^verbatim>\<open>Readable.prototype.read\<close>. A read of more than the high-water mark raises the mark
  to the next power of two.
\<close>

function pow2_from :: "nat \<Rightarrow> nat \<Rightarrow> nat" where
  "pow2_from p n = (if n \<le> p \<or> p = 0 then p else pow2_from (2 * p) n)"
  by pat_completeness auto
termination
  by (relation "measure (\<lambda>(p, n). n - p)") auto

declare pow2_from.simps [simp del]

definition computeNewHighWaterMark :: "nat \<Rightarrow> nat" where
  "computeNewHighWaterMark n = (if 2 ^ 30 \<le> n then 2 ^ 30 else pow2_from 1 n)"

definition null_data :: js_error where
  "null_data = TypeError ''Cannot read properties of null''"

text \<open>
  \<^verbatim>\<open>howMuchToRead\<close>; \<open>None\<close> is a call without \<^verbatim>\<open>n\<close>. A flowing stream takes one
  chunk at a time and looks at the first of the list, which throws when the list is
  empty while \<^verbatim>\<open>length\<close> is not zero.
\<close>

definition howMuchToRead :: "nat option \<Rightarrow> 'a readable_scheme \<Rightarrow> js_error + nat" where
  "howMuchToRead n r =
     (if n = Some 0 \<or> (state_length r = 0 \<and> ended r) then Inr 0
      else
        case n of
          None \<Rightarrow>
            if flowing r = Some True \<and> state_length r \<noteq> 0
            then (case buffer r of [] \<Rightarrow> Inl null_data | c # cs \<Rightarrow> Inr (length c))
            else Inr (state_length r)
        | Some k \<Rightarrow>
            if k \<le> state_length r then Inr k
            else if ended r then Inr (state_length r)
            else Inr 0)"

text \<open>
  The first \<open>n\<close> bytes of a list of chunks and what is left of the list. Where the list
  holds fewer bytes than \<^verbatim>\<open>length\<close> promises, the missing bytes of the result are
  memory that was never written; they are written here as zero bytes.
\<close>

fun take_front :: "nat \<Rightarrow> chunk list \<Rightarrow> chunk \<times> chunk list" where
  "take_front n [] = ([], [])"
| "take_front n (c # cs) =
     (if n < length c then (take n c, drop n c # cs)
      else if n = length c then (c, cs)
      else (c @ fst (take_front (n - length c) cs), snd (take_front (n - length c) cs)))"

definition zero_fill :: "nat \<Rightarrow> chunk \<Rightarrow> chunk" where
  "zero_fill n d = d @ replicate (n - length d) (CHR 0x00)"

text \<open>\<^verbatim>\<open>fromList\<close>, for a positive \<open>n\<close>.\<close>

definition fromList :: "nat \<Rightarrow> 'a readable_scheme \<Rightarrow> js_error + (chunk option \<times> 'a readable_scheme)" where
  "fromList n r =
     (if state_length r = 0 then Inr (None, r)
      else if state_length r \<le> n then
        Inr (Some (case buffer r of
                     [] \<Rightarrow> []
                   | [c] \<Rightarrow> c
                   | c # d # cs \<Rightarrow> zero_fill (state_length r) (concat (c # d # cs))),
             r\<lparr>buffer := []\<rparr>)
      else
        (case buffer r of
           [] \<Rightarrow> Inl null_data
         | c # cs \<Rightarrow>
             Inr (Some (zero_fill n (fst (take_front n (c # cs)))),
                  r\<lparr>buffer := snd (take_front n (c # cs))\<rparr>)))"

text \<open>
  The call of \<^verbatim>\<open>_read\<close> inside \<^verbatim>\<open>read\<close>, made when the backlog is or will be below
  the high-water mark and the stream has not ended, is not reading, and is neither
  destroyed nor errored.
\<close>

definition doRead :: "nat \<Rightarrow> 'a readable_scheme \<Rightarrow> 'a readable_scheme" where
  "doRead n r =
     (if (state_length r = 0 \<or> state_length r - n < readableHighWaterMark r)
         \<and> \<not> (ended r \<or> reading r \<or> destroyed r \<or> errored r \<noteq> None)
      then (read_hook (r\<lparr>reading := True\<rparr>))\<lparr>sync := False\<rparr>
      else r)"

definition raiseHighWaterMark :: "nat option \<Rightarrow> 'a readable_scheme \<Rightarrow> 'a readable_scheme" where
  "raiseHighWaterMark n r =
     (case n of
        None \<Rightarrow> r
      | Some k \<Rightarrow>
          if readableHighWaterMark r < k
          then r\<lparr>readableHighWaterMark := computeNewHighWaterMark k\<rparr>
          else r)"

text \<open>
  The end of \<^verbatim>\<open>read\<close> for a positive \<open>m\<close>: the bytes are taken from the list, counted
  off \<^verbatim>\<open>length\<close> and handed to the \<^verbatim>\<open>data\<close> listeners as well as to the caller.
\<close>

definition read_data :: "nat \<Rightarrow> 'a readable_scheme \<Rightarrow> chunk option outcome \<times> 'a readable_scheme" where
  "read_data m r =
     (case fromList m r of
        Inl e \<Rightarrow> (Throws e, r)
      | Inr (None, r1) \<Rightarrow> (Returns None, r1)
      | Inr (Some d, r1) \<Rightarrow>
          (Returns (Some d),
           r1\<lparr>state_length := state_length r1 - m,
              readableDidRead := map_option (\<lambda>b. True) (readableDidRead r1),
              emitted := emitted r1 @ [d]\<rparr>))"

definition Readable_read ::
  "nat option \<Rightarrow> 'a readable_scheme \<Rightarrow> chunk option outcome \<times> 'a readable_scheme" where
  "Readable_read n r =
     (case howMuchToRead n (raiseHighWaterMark n r) of
        Inl e \<Rightarrow> (Throws e, raiseHighWaterMark n r)
      | Inr m \<Rightarrow>
          if m = 0 \<and> ended r then (Returns None, raiseHighWaterMark n r)
          else if m = 0 then (Returns None, doRead m (raiseHighWaterMark n r))
          else read_data m (doRead m (raiseHighWaterMark n r)))"

text \<open>
  \<^verbatim>\<open>Readable.prototype.resume\<close>, \<^verbatim>\<open>on\<close> and \<^verbatim>\<open>pipe\<close>. \<^verbatim>\<open>pipe\<close> registers its
  listeners for \<^verbatim>\<open>end\<close> and \<^verbatim>\<open>data\<close> on the stream and resumes it.
\<close>

definition Readable_resume :: "'a readable_scheme \<Rightarrow> 'a readable_scheme" where
  "Readable_resume r =
     (if flowing r = Some True then r else r\<lparr>flowing := Some (\<not> readableListening r)\<rparr>)"

definition Readable_on :: "string \<Rightarrow> listener \<Rightarrow> 'a readable_scheme \<Rightarrow> 'a readable_scheme" where
  "Readable_on ev fn r =
     (let r' = r\<lparr>listeners := listeners r @ [(ev, fn)]\<rparr> in
      if ev = ''data'' then
        (let r'' = r'\<lparr>readableListening := (0 < listenerCount ''readable'' r')\<rparr>
         in if flowing r'' = Some False then r'' else Readable_resume r'')
      else if ev = ''readable'' \<and> \<not> endEmitted r' \<and> \<not> readableListening r' then
        r'\<lparr>readableListening := True, flowing := Some False\<rparr>
      else r')"

definition Readable_pipe :: "'a readable_scheme \<Rightarrow> 'a readable_scheme" where
  "Readable_pipe r =
     (let r1 = (if endEmitted r then r else Readable_on ''end'' PipeOnEnd r);
          r2 = Readable_on ''data'' PipeOnData r1
      in if flowing r2 = Some True then r2 else Readable_resume r2)"

section \<open>The class \<^verbatim>\<open>BodyReadable\<close>\<close>

subsection \<open>The lock objects\<close>

text \<open>
  \<^verbatim>\<open>this[kBody]\<close> is \<^verbatim>\<open>undefined\<close> after construction, \<^verbatim>\<open>null\<close> after a
  consumption without type, or one of the two lock objects that \<^verbatim>\<open>consume\<close> builds:
  the lock of the web stream \<^verbatim>\<open>{type, used, buffer: self, controller, push}\<close> and
  the lock of the promise \<^verbatim>\<open>{type, used, body, push}\<close>, whose \<^verbatim>\<open>push\<close> closes over
  \<^verbatim>\<open>resolve\<close>. The promise is kept with its lock.

  \<^verbatim>\<open>body\<close> is a string, an array of chunks, or \<^verbatim>\<open>null\<close> once the end was handled.
\<close>

datatype acc_body = StrBody string | ArrBody "chunk list" | NullBody

text \<open>
  An \<^verbatim>\<open>ArrayBuffer\<close> is the memory behind a \<^verbatim>\<open>Buffer\<close>. \<^verbatim>\<open>Buffer.concat\<close> takes
  the memory of a result of 1 to 4095 bytes from the shared pool of 8192 bytes, so that
  \<^verbatim>\<open>.buffer\<close> of such a result is the whole pool, which holds the bytes somewhere;
  a larger result, and an empty one, has memory of its own of just its size.
\<close>

datatype array_buffer = OwnMemory chunk | SharedPool chunk

definition backing_store :: "chunk \<Rightarrow> array_buffer" where
  "backing_store b =
     (if b = [] then OwnMemory []
      else if length b < 4096 then SharedPool b
      else OwnMemory b)"

fun byteLength :: "array_buffer \<Rightarrow> nat" where
  "byteLength (OwnMemory b) = length b"
| "byteLength (SharedPool b) = 8192"

datatype 'j js_value =
    VBody acc_body
  | VJson 'j
  | VArrayBuffer array_buffer
  | VBlob "chunk list"

datatype 'j promise = Pending | Resolved "'j js_value" | Rejected js_error

record web_lock =
  wl_used :: bool
  wl_controller :: "controller option"

record 'j acc_lock =
  al_type :: consume_type
  al_used :: bool
  al_body :: acc_body
  al_promise :: "'j promise"

datatype 'j kbody = Undefined | Null | WebLock web_lock | AccLock "'j acc_lock"

text \<open>JavaScript truthiness of \<^verbatim>\<open>this[kBody]\<close>: only an object is truthy.\<close>

fun truthy :: "'j kbody \<Rightarrow> bool" where
  "truthy Undefined = False"
| "truthy Null = False"
| "truthy (WebLock l) = True"
| "truthy (AccLock l) = True"


text \<open>
  \<^verbatim>\<open>class BodyReadable extends Readable\<close>: the base fields, \<^verbatim>\<open>kBody\<close> and
  \<^verbatim>\<open>kDestroyed\<close>. \<open>microtasks\<close> counts the callbacks queued by
  \<^verbatim>\<open>queueMicrotask\<close> that have not run yet.
\<close>

record 'j body_readable = readable +
  kBody :: "'j kbody"
  kDestroyed :: bool
  microtasks :: nat

text \<open>
  The constructor. \<open>didRead\<close> tells whether the platform's \<^verbatim>\<open>Readable\<close> has
  \<^verbatim>\<open>readableDidRead\<close>; \<open>hwm\<close> is the high-water mark of the options, and
  \<^verbatim>\<open>autoDestroy\<close> is on as by default.
\<close>

definition BodyReadable :: "bool \<Rightarrow> nat \<Rightarrow> 'j body_readable" where
  "BodyReadable didRead hwm =
     \<lparr>buffer = [], state_length = 0, ended = False, endEmitted = False, destroyed = False,
      errored = None, readableDidRead = (if didRead then Some False else None),
      listeners = [], flowing = None, sync = True, reading = False,
      readableListening = False, autoDestroy = True, readCalls = 0,
      readableHighWaterMark = hwm, emitted = [],
      kBody = Undefined, kDestroyed = False, microtasks = 0\<rparr>"

subsection \<open>\<^verbatim>\<open>destroy\<close>\<close>

text \<open>
  \<open>destroy_err\<close> is the value of \<^verbatim>\<open>err\<close> when \<^verbatim>\<open>destroy\<close> reaches the base
  teardown: an \<^verbatim>\<open>AbortError\<close> replaces a missing error when a lock object exists and
  \<^verbatim>\<open>endEmitted\<close> is false.
\<close>

definition destroy_err :: "js_error option \<Rightarrow> 'j body_readable \<Rightarrow> js_error option" where
  "destroy_err err s =
     (if truthy (kBody s) \<and> err = None \<and> \<not> endEmitted s then Some AbortError else err)"

definition destroy :: "js_error option \<Rightarrow> 'j body_readable \<Rightarrow> 'j body_readable" where
  "destroy err s =
     (if kDestroyed s then s
      else Readable_destroy (destroy_err err s) (s\<lparr>kDestroyed := True\<rparr>))"

subsection \<open>\<^verbatim>\<open>push\<close> of the web stream's lock\<close>

text \<open>
  Lines 170 to 201. Without a controller the lock calls \<^verbatim>\<open>this.buffer.push(val)\<close>,
  where \<^verbatim>\<open>this.buffer\<close> is the stream itself, whose \<^verbatim>\<open>push\<close> calls this function
  again with the same state: the calls nest until the engine throws a
  \<^verbatim>\<open>RangeError\<close> for its call stack.
\<close>

definition web_push :: "web_lock \<Rightarrow> chunk option \<Rightarrow> 'j body_readable \<Rightarrow> bool outcome \<times> 'j body_readable" where
  "web_push l val s =
     (if destroyed s then (Returns False, s)
      else
        let l1 = l\<lparr>wl_used := True\<rparr> in
        case wl_controller l1 of
          None \<Rightarrow> (Throws RangeError, s\<lparr>kBody := WebLock l1\<rparr>)
        | Some c \<Rightarrow>
            (case val of
               None \<Rightarrow>
                 (case close c of
                    Inl e \<Rightarrow> (Throws e, s\<lparr>kBody := WebLock l1\<rparr>)
                  | Inr c' \<Rightarrow>
                      (Returns (gt_zero (desiredSize c')),
                       s\<lparr>kBody := WebLock (l1\<lparr>wl_controller := Some c'\<rparr>),
                         microtasks := Suc (microtasks s)\<rparr>))
             | Some v \<Rightarrow>
                 (case enqueue (Uint8Array v) c of
                    Inl e \<Rightarrow> (Throws e, s\<lparr>kBody := WebLock l1\<rparr>)
                  | Inr c' \<Rightarrow>
                      (Returns (gt_zero (desiredSize c')),
                       s\<lparr>kBody := WebLock (l1\<lparr>wl_controller := Some c'\<rparr>)\<rparr>))))"

text \<open>The queued callback \<^verbatim>\<open>() => Readable.prototype.push.call(self, null)\<close>.\<close>

definition run_microtask :: "'j body_readable \<Rightarrow> 'j body_readable" where
  "run_microtask s =
     (if microtasks s = 0 then s
      else snd (Readable_push destroy None (s\<lparr>microtasks := microtasks s - 1\<rparr>)))"

subsection \<open>\<^verbatim>\<open>push\<close> of the promise's lock\<close>

text \<open>
  \<^verbatim>\<open>this.body += val\<close>: string concatenation of the body and the decoded chunk; a body
  that is an array is first joined with commas, each of its chunks decoded, and
  \<^verbatim>\<open>null\<close> becomes the text \<^verbatim>\<open>null\<close>.
\<close>

fun join :: "string list \<Rightarrow> string" where
  "join [] = []"
| "join [x] = x"
| "join (x # y # ys) = x @ '','' @ join (y # ys)"

fun ToString :: "'j platform \<Rightarrow> acc_body \<Rightarrow> string" where
  "ToString node (StrBody t) = t"
| "ToString node (ArrBody xs) = join (map (Buffer_toString node) xs)"
| "ToString node NullBody = ''null''"

definition plus_assign :: "'j platform \<Rightarrow> acc_body \<Rightarrow> chunk \<Rightarrow> acc_body" where
  "plus_assign node b val = StrBody (ToString node b @ Buffer_toString node val)"

text \<open>\<^verbatim>\<open>resolve(v)\<close> settles a pending promise and leaves a settled one alone.\<close>

definition resolve :: "'j js_value \<Rightarrow> 'j acc_lock \<Rightarrow> 'j acc_lock" where
  "resolve v l = (if al_promise l = Pending then l\<lparr>al_promise := Resolved v\<rparr> else l)"

definition not_an_array :: js_error where
  "not_an_array = TypeError ''body is not an array''"

text \<open>
  The \<^verbatim>\<open>try\<close> block, lines 246 to 265: \<open>Inl\<close> is the error it throws.
  \<^verbatim>\<open>this.body.push\<close>, \<^verbatim>\<open>Buffer.concat\<close> and \<^verbatim>\<open>new Blob\<close> throw a
  \<^verbatim>\<open>TypeError\<close> when the body is not an array. The array buffer resolves with
  \<^verbatim>\<open>Buffer.concat(this.body).buffer\<close>, the memory behind the concatenation.
\<close>

definition accumulate ::
  "'j platform \<Rightarrow> chunk option \<Rightarrow> 'j acc_lock \<Rightarrow> js_error + 'j acc_lock" where
  "accumulate node val l =
     (if al_type l = kTextType \<or> al_type l = kJSONType then
        (case val of
           Some v \<Rightarrow> Inr (l\<lparr>al_body := plus_assign node (al_body l) v\<rparr>)
         | None \<Rightarrow>
             if al_type l = kTextType then Inr (resolve (VBody (al_body l)) l)
             else if al_type l = kJSONType then
               (case JSON_parse node (ToString node (al_body l)) of
                  Inl e \<Rightarrow> Inl e
                | Inr j \<Rightarrow> Inr (resolve (VJson j) l))
             else Inr l)
      else
        (case val of
           Some v \<Rightarrow>
             (case al_body l of
                ArrBody xs \<Rightarrow> Inr (l\<lparr>al_body := ArrBody (xs @ [v])\<rparr>)
              | _ \<Rightarrow> Inl not_an_array)
         | None \<Rightarrow>
             if al_type l = kArrayBufferType then
               (case al_body l of
                  ArrBody xs \<Rightarrow> Inr (resolve (VArrayBuffer (backing_store (concat xs))) l)
                | _ \<Rightarrow> Inl not_an_array)
             else if al_type l = kBlobType then
               (case al_body l of
                  ArrBody xs \<Rightarrow> Inr (resolve (VBlob xs) l)
                | _ \<Rightarrow> Inl not_an_array)
             else Inr l))"

text \<open>Lines 238 to 277.\<close>

definition acc_push ::
  "'j platform \<Rightarrow> 'j acc_lock \<Rightarrow> chunk option \<Rightarrow> 'j body_readable
     \<Rightarrow> bool outcome \<times> 'j body_readable" where
  "acc_push node l val s =
     (if destroyed s then (Returns False, s)
      else
        let l1 = l\<lparr>al_used := True\<rparr> in
        case accumulate node val l1 of
          Inl e \<Rightarrow> (Returns False, destroy (Some e) (s\<lparr>kBody := AccLock l1\<rparr>))
        | Inr l2 \<Rightarrow>
            (case val of
               None \<Rightarrow>
                 (Returns True,
                  snd (Readable_push destroy None
                         (s\<lparr>kBody := AccLock (l2\<lparr>al_body := NullBody\<rparr>)\<rparr>)))
             | Some v \<Rightarrow> (Returns True, s\<lparr>kBody := AccLock l2\<rparr>)))"

subsection \<open>\<^verbatim>\<open>push\<close> of the class, and \<^verbatim>\<open>self[kBody].push\<close>\<close>

definition no_push :: js_error where
  "no_push = TypeError ''Cannot read properties of undefined or null''"

text \<open>\<^verbatim>\<open>self[kBody].push(val)\<close> as \<^verbatim>\<open>start\<close> calls it: it needs a lock object.\<close>

definition kbody_push ::
  "'j platform \<Rightarrow> chunk option \<Rightarrow> 'j body_readable \<Rightarrow> bool outcome \<times> 'j body_readable" where
  "kbody_push node val s =
     (case kBody s of
        WebLock l \<Rightarrow> web_push l val s
      | AccLock l \<Rightarrow> acc_push node l val s
      | _ \<Rightarrow> (Throws no_push, s))"

text \<open>Lines 47 to 53.\<close>

definition push ::
  "'j platform \<Rightarrow> chunk option \<Rightarrow> 'j body_readable \<Rightarrow> bool outcome \<times> 'j body_readable" where
  "push node val s =
     (if truthy (kBody s) then kbody_push node val s
      else (Returns (fst (Readable_push destroy val s)), snd (Readable_push destroy val s)))"

section \<open>The module functions \<^verbatim>\<open>start\<close> and \<^verbatim>\<open>consume\<close>\<close>

subsection \<open>\<^verbatim>\<open>start\<close>\<close>

text \<open>No push of a lock touches the backlog; the loop of \<^verbatim>\<open>start\<close> ends for that reason.\<close>

lemma Readable_destroy_buffer: "buffer (Readable_destroy e r) = buffer r"
  by (simp add: Readable_destroy_def)

lemma destroy_buffer: "buffer (destroy e s) = buffer s"
  by (simp add: destroy_def Readable_destroy_buffer)

lemma web_push_buffer: "buffer (snd (web_push l val s)) = buffer s"
  by (simp add: web_push_def Let_def split: option.splits sum.splits)

lemma acc_push_buffer: "buffer (snd (acc_push node l val s)) = buffer s"
  by (simp add: acc_push_def Let_def Readable_push_def destroy_buffer
           split: option.splits sum.splits)

lemma kbody_push_buffer: "buffer (snd (kbody_push node val s)) = buffer s"
  by (simp add: kbody_push_def web_push_buffer acc_push_buffer split: kbody.splits)

text \<open>
  The loop \<^verbatim>\<open>while (state.buffer.length) self[kBody].push(state.buffer.shift())\<close>.
  The callee \<^verbatim>\<open>self[kBody].push\<close> is looked up before the argument is evaluated, so
  without a lock object nothing is shifted.
\<close>

function drain :: "'j platform \<Rightarrow> 'j body_readable \<Rightarrow> unit outcome \<times> 'j body_readable" where
  "drain node s =
     (case buffer s of
        [] \<Rightarrow> (Returns (), s)
      | c # cs \<Rightarrow>
          if \<not> truthy (kBody s) then (Throws no_push, s)
          else
            (case kbody_push node (Some c) (s\<lparr>buffer := cs\<rparr>) of
               (Throws e, s') \<Rightarrow> (Throws e, s')
             | (Returns b, s') \<Rightarrow> drain node s'))"
  by pat_completeness auto
termination
proof (relation "measure (\<lambda>(node, s). length (buffer s))")
  show "wf (measure (\<lambda>(node, s). length (buffer s)))"
    by simp
next
  fix node :: "'j platform" and s :: "'j body_readable"
    and c cs x b s'
  assume buf: "buffer s = c # cs"
    and res: "(x, s') = kbody_push node (Some c) (s\<lparr>buffer := cs\<rparr>)"
  have "buffer s' = buffer (snd (kbody_push node (Some c) (s\<lparr>buffer := cs\<rparr>)))"
    using res by (metis snd_conv)
  then have "buffer s' = cs"
    by (simp add: kbody_push_buffer)
  then show "((node, s'), (node, s)) \<in> measure (\<lambda>(node, s). length (buffer s))"
    using buf by simp
qed

declare drain.simps [simp del]

text \<open>Lines 118 to 130.\<close>

definition start :: "'j platform \<Rightarrow> 'j body_readable \<Rightarrow> unit outcome \<times> 'j body_readable" where
  "start node s =
     (if listenerCount ''data'' s \<noteq> 0 then (Throws AssertionError, s)
      else
        case drain node s of
          (Throws e, s1) \<Rightarrow> (Throws e, s1)
        | (Returns u, s1) \<Rightarrow>
            if ended s1 then
              (case kbody_push node None s1 of
                 (Throws e, s2) \<Rightarrow> (Throws e, s2)
               | (Returns b, s2) \<Rightarrow> (Returns (), read_hook s2))
            else (Returns (), read_hook s1))"

subsection \<open>\<^verbatim>\<open>bodyUsed\<close>\<close>

text \<open>Lines 87 to 95.\<close>

definition bodyUsed :: "'j body_readable \<Rightarrow> bool" where
  "bodyUsed s =
     (case kBody s of
        WebLock l \<Rightarrow> wl_used l
      | AccLock l \<Rightarrow> al_used l
      | Undefined \<Rightarrow> (case readableDidRead s of Some b \<Rightarrow> b | None \<Rightarrow> False)
      | Null \<Rightarrow> (case readableDidRead s of Some b \<Rightarrow> b | None \<Rightarrow> True))"

subsection \<open>The receivers\<close>

text \<open>
  The module is in strict mode and \<^verbatim>\<open>consume\<close> is a function declaration that every
  caller invokes as \<^verbatim>\<open>consume(this, type)\<close>, a plain call: inside \<^verbatim>\<open>consume\<close>,
  and inside the arrow function it hands to \<^verbatim>\<open>new Promise\<close>, \<^verbatim>\<open>this\<close> is
  \<^verbatim>\<open>undefined\<close>. Reading a property of \<^verbatim>\<open>undefined\<close> throws a \<^verbatim>\<open>TypeError\<close>.

  The web stream calls the method \<^verbatim>\<open>start\<close> of the object literal
  \<^verbatim>\<open>{ start, pull, cancel }\<close> with that object as \<^verbatim>\<open>this\<close>; the object has no
  property \<^verbatim>\<open>controller\<close>.
\<close>

datatype js_this = JSUndefined | JSObject "consume_type option"

definition undefined_read :: js_error where
  "undefined_read = TypeError ''Cannot read properties of undefined''"

definition get_type :: "js_this \<Rightarrow> js_error + consume_type option" where
  "get_type this = (case this of JSUndefined \<Rightarrow> Inl undefined_read | JSObject t \<Rightarrow> Inr t)"

definition consume_this :: js_this where
  "consume_this = JSUndefined"

definition source_this_controller :: "controller option" where
  "source_this_controller = None"

subsection \<open>\<^verbatim>\<open>consume\<close>\<close>

datatype 'j consumed = Self | WebStreamObj | PromiseObj "'j promise"

text \<open>
  The method \<^verbatim>\<open>start (controller)\<close> of the underlying source, lines 152 to 205. The
  two listeners are registered with \<^verbatim>\<open>self.on\<close> for the events \<^verbatim>\<open>error\<close> and
  \<^verbatim>\<open>end\<close>, which the method \<^verbatim>\<open>on\<close> of the class passes to the base class.
\<close>

definition source_start ::
  "'j platform \<Rightarrow> controller \<Rightarrow> 'j body_readable \<Rightarrow> unit outcome \<times> 'j body_readable" where
  "source_start node ctrl self =
     (if truthy (kBody self) then
        (case source_this_controller of
           None \<Rightarrow> (Throws undefined_read, self)
         | Some c \<Rightarrow> start node self)
      else
        start node
          ((Readable_on ''end'' EndTeardown (Readable_on ''error'' ControllerError self))
             \<lparr>kBody := WebLock \<lparr>wl_used = False, wl_controller = Some ctrl\<rparr>\<rparr>))"

text \<open>\<^verbatim>\<open>reject(err)\<close> on the promise kept with the lock.\<close>

definition reject :: "js_error \<Rightarrow> 'j body_readable \<Rightarrow> 'j body_readable" where
  "reject e s =
     (case kBody s of
        AccLock l \<Rightarrow>
          if al_promise l = Pending then s\<lparr>kBody := AccLock (l\<lparr>al_promise := Rejected e\<rparr>)\<rparr> else s
      | _ \<Rightarrow> s)"

definition promise_of :: "'j body_readable \<Rightarrow> 'j promise" where
  "promise_of s = (case kBody s of AccLock l \<Rightarrow> al_promise l | _ \<Rightarrow> Pending)"

text \<open>
  The function handed to \<^verbatim>\<open>new Promise\<close>, lines 227 to 281, with the receiver
  \<open>this\<close> it runs under. The object literal of the lock evaluates \<^verbatim>\<open>this.type\<close>
  for its property \<^verbatim>\<open>body\<close>; an exception in the function rejects the promise. The
  result is the promise as it stands when \<^verbatim>\<open>consume\<close> returns it.
\<close>

definition promise_executor ::
  "'j platform \<Rightarrow> js_this \<Rightarrow> consume_type \<Rightarrow> 'j body_readable
     \<Rightarrow> 'j promise \<times> 'j body_readable" where
  "promise_executor node this type self =
     (let s1 = Readable_on ''end'' EndTeardown (Readable_on ''error'' Reject self) in
      case get_type this of
        Inl e \<Rightarrow> (Rejected e, s1)
      | Inr t \<Rightarrow>
          (let lock = \<lparr>al_type = type, al_used = False,
                       al_body = (if t = Some kTextType \<or> t = Some kJSONType
                                  then StrBody [] else ArrBody []),
                       al_promise = Pending\<rparr>
           in (case start node (s1\<lparr>kBody := AccLock lock\<rparr>) of
                 (Returns u, s2) \<Rightarrow> (promise_of s2, s2)
               | (Throws e, s2) \<Rightarrow> (promise_of (reject e s2), reject e s2))))"

text \<open>Lines 132 to 282. \<open>None\<close> is a call without type.\<close>

definition consume ::
  "'j platform \<Rightarrow> consume_type option \<Rightarrow> 'j body_readable
     \<Rightarrow> 'j consumed outcome \<times> 'j body_readable" where
  "consume node type self =
     (if bodyUsed self then (Throws (TypeError ''disturbed''), self)
      else if truthy (kBody self) then (Throws (TypeError ''locked''), self)
      else
        case type of
          None \<Rightarrow> (Returns Self, self\<lparr>kBody := Null\<rparr>)
        | Some t \<Rightarrow>
            if t = kWebStreamType then
              (case source_start node (new_controller (16 * 1024)) self of
                 (Throws e, s') \<Rightarrow> (Throws e, s')
               | (Returns u, s') \<Rightarrow> (Returns WebStreamObj, s'))
            else
              (case promise_executor node consume_this t self of
                 (p, s') \<Rightarrow> (Returns (PromiseObj p), s')))"

text \<open>The methods \<^verbatim>\<open>pull\<close> and \<^verbatim>\<open>cancel\<close> of the underlying source.\<close>

datatype reason = ReasonError js_error | ReasonString string | ReasonOther

definition pull :: "'j body_readable \<Rightarrow> 'j body_readable" where
  "pull self = read_hook self"

definition cancel :: "reason \<Rightarrow> 'j body_readable \<Rightarrow> 'j body_readable" where
  "cancel r self =
     destroy (Some (case r of
                      ReasonError e \<Rightarrow> e
                    | ReasonString m \<Rightarrow> Error m
                    | ReasonOther \<Rightarrow> AbortError)) self"

subsection \<open>The consuming methods of the class\<close>

definition body_getter :: "'j platform \<Rightarrow> 'j body_readable \<Rightarrow> 'j consumed outcome \<times> 'j body_readable" where
  "body_getter node s = consume node (Some kWebStreamType) s"

definition text_method :: "'j platform \<Rightarrow> 'j body_readable \<Rightarrow> 'j consumed outcome \<times> 'j body_readable" where
  "text_method node s = consume node (Some kTextType) s"

definition json_method :: "'j platform \<Rightarrow> 'j body_readable \<Rightarrow> 'j consumed outcome \<times> 'j body_readable" where
  "json_method node s = consume node (Some kJSONType) s"

definition blob_method :: "'j platform \<Rightarrow> 'j body_readable \<Rightarrow> 'j consumed outcome \<times> 'j body_readable" where
  "blob_method node s = consume node (Some kBlobType) s"

definition arrayBuffer_method :: "'j platform \<Rightarrow> 'j body_readable \<Rightarrow> 'j consumed outcome \<times> 'j body_readable" where
  "arrayBuffer_method node s = consume node (Some kArrayBufferType) s"

text \<open>
  \<^verbatim>\<open>read\<close>, \<^verbatim>\<open>resume\<close>, \<^verbatim>\<open>pipe\<close>, \<^verbatim>\<open>on\<close> and \<^verbatim>\<open>addListener\<close>, lines 55 to 85:
  while \<^verbatim>\<open>this[kBody] === undefined\<close> they call \<^verbatim>\<open>consume(this)\<close> first.
\<close>

definition legacy_gate :: "'j platform \<Rightarrow> 'j body_readable \<Rightarrow> 'j consumed outcome \<times> 'j body_readable" where
  "legacy_gate node s =
     (case kBody s of Undefined \<Rightarrow> consume node None s | _ \<Rightarrow> (Returns Self, s))"

definition read_method :: "'j platform \<Rightarrow> nat option \<Rightarrow> 'j body_readable \<Rightarrow> chunk option outcome \<times> 'j body_readable" where
  "read_method node n s =
     (case legacy_gate node s of
        (Throws e, s') \<Rightarrow> (Throws e, s')
      | (Returns u, s') \<Rightarrow> Readable_read n s')"

definition resume :: "'j platform \<Rightarrow> 'j body_readable \<Rightarrow> unit outcome \<times> 'j body_readable" where
  "resume node s =
     (case legacy_gate node s of
        (Throws e, s') \<Rightarrow> (Throws e, s')
      | (Returns u, s') \<Rightarrow> (Returns (), Readable_resume s'))"

definition pipe :: "'j platform \<Rightarrow> 'j body_readable \<Rightarrow> unit outcome \<times> 'j body_readable" where
  "pipe node s =
     (case legacy_gate node s of
        (Throws e, s') \<Rightarrow> (Throws e, s')
      | (Returns u, s') \<Rightarrow> (Returns (), Readable_pipe s'))"

definition on_method :: "'j platform \<Rightarrow> string \<Rightarrow> listener \<Rightarrow> 'j body_readable \<Rightarrow> unit outcome \<times> 'j body_readable" where
  "on_method node ev fn s =
     (case (if ev = ''data'' \<or> ev = ''readable'' then legacy_gate node s else (Returns Self, s)) of
        (Throws e, s') \<Rightarrow> (Throws e, s')
      | (Returns u, s') \<Rightarrow> (Returns (), Readable_on ev fn s'))"

definition addListener :: "'j platform \<Rightarrow> string \<Rightarrow> listener \<Rightarrow> 'j body_readable \<Rightarrow> unit outcome \<times> 'j body_readable" where
  "addListener node ev fn s = on_method node ev fn s"

subsection \<open>Sequences of calls\<close>

datatype call =
    Push "chunk option"
  | Destroy "js_error option"
  | Read "nat option"
  | Resume
  | Pipe
  | On string listener
  | AddListener string listener
  | Consume "consume_type option"
  | Pull
  | Cancel reason
  | Microtask

text \<open>The state after a call; a call that throws leaves the state it reached.\<close>

fun step :: "'j platform \<Rightarrow> call \<Rightarrow> 'j body_readable \<Rightarrow> 'j body_readable" where
  "step node (Push val) s = snd (push node val s)"
| "step node (Destroy err) s = destroy err s"
| "step node (Read n) s = snd (read_method node n s)"
| "step node Resume s = snd (resume node s)"
| "step node Pipe s = snd (pipe node s)"
| "step node (On ev fn) s = snd (on_method node ev fn s)"
| "step node (AddListener ev fn) s = snd (addListener node ev fn s)"
| "step node (Consume type) s = snd (consume node type s)"
| "step node Pull s = pull s"
| "step node (Cancel r) s = cancel r s"
| "step node Microtask s = run_microtask s"

fun run :: "'j platform \<Rightarrow> call list \<Rightarrow> 'j body_readable \<Rightarrow> 'j body_readable" where
  "run node [] s = s"
| "run node (c # cs) s = run node cs (step node c s)"

text \<open>The pushes of a list of values into the lock, one after the other, up to the first that throws.\<close>

fun feed :: "'j platform \<Rightarrow> chunk option list \<Rightarrow> 'j body_readable \<Rightarrow> unit outcome \<times> 'j body_readable" where
  "feed node [] s = (Returns (), s)"
| "feed node (v # vs) s =
     (case kbody_push node v s of
        (Throws e, s') \<Rightarrow> (Throws e, s')
      | (Returns b, s') \<Rightarrow> feed node vs s')"

text \<open>
  The platform of the examples. Its \<^verbatim>\<open>JSON.parse\<close> reads one decimal digit; its
  decoding returns the bytes as they are, which is what UTF-8 decoding does on the
  chunks of ASCII bytes that the examples push.
\<close>

definition parse_digit :: "string \<Rightarrow> js_error + nat" where
  "parse_digit t =
     (if t = ''0'' then Inr 0 else if t = ''1'' then Inr 1 else if t = ''2'' then Inr 2
      else Inl (Error ''SyntaxError''))"

definition node_digit :: "nat platform" where
  "node_digit = \<lparr>JSON_parse = parse_digit, Buffer_toString = (\<lambda>c. c)\<rparr>"

section \<open>Evaluation of the model\<close>

lemmas eval_defs =
  BodyReadable_def push_def kbody_push_def web_push_def acc_push_def accumulate_def
  Readable_push_def wants_more_def addChunk_def errorOrDestroy_def push_after_EOF_def
  Readable_destroy_def Readable_read_def raiseHighWaterMark_def read_data_def
  howMuchToRead_def fromList_def doRead_def
  zero_fill_def null_data_def backing_store_def
  Readable_resume_def Readable_on_def Readable_pipe_def read_hook_def listenerCount_def
  destroy_def destroy_err_def bodyUsed_def consume_def source_start_def start_def
  promise_executor_def get_type_def consume_this_def source_this_controller_def
  legacy_gate_def read_method_def resume_def pipe_def on_method_def addListener_def
  new_controller_def enqueue_def close_def canCloseOrEnqueue_def desiredSize_def gt_zero_def
  Uint8Array_def plus_assign_def resolve_def reject_def promise_of_def run_microtask_def
  pull_def cancel_def body_getter_def text_method_def json_method_def blob_method_def
  arrayBuffer_method_def undefined_read_def no_push_def not_an_array_def node_digit_def
  parse_digit_def

lemma drain_Nil: "buffer s = [] \<Longrightarrow> drain node s = (Returns (), s)"
  by (simp add: drain.simps)

lemma drain_Cons:
  "buffer s = c # cs \<Longrightarrow>
   drain node s =
     (if \<not> truthy (kBody s) then (Throws no_push, s)
      else (case kbody_push node (Some c) (s\<lparr>buffer := cs\<rparr>) of
              (Throws e, s') \<Rightarrow> (Throws e, s')
            | (Returns b, s') \<Rightarrow> drain node s'))"
  by (subst drain.simps) simp

text \<open>The object right after the getter \<^verbatim>\<open>body\<close> on a fresh stream.\<close>

lemma web_installed:
  "run node_digit [Consume (Some kWebStreamType)] (BodyReadable True 16384) =
     \<lparr>buffer = [], state_length = 0, ended = False, endEmitted = False, destroyed = False,
      errored = None, readableDidRead = Some False,
      listeners = [(''error'', ControllerError), (''end'', EndTeardown)],
      flowing = None, sync = True, reading = False, readableListening = False,
      autoDestroy = True, readCalls = 1, readableHighWaterMark = 16384, emitted = [],
      kBody = WebLock \<lparr>wl_used = False,
                        wl_controller = Some \<lparr>queue = [], closeRequested = False,
                                              rs_state = Readable, highWaterMark = 16384\<rparr>\<rparr>,
      kDestroyed = False, microtasks = 0\<rparr>"
  by (simp add: eval_defs drain_Nil)

text \<open>
  The base stream in three situations: a chunk pushed after the end destroys the stream;
  after the getter \<^verbatim>\<open>body\<close> has emptied a backlog, \<^verbatim>\<open>length\<close> still counts its
  bytes, and \<^verbatim>\<open>read()\<close> returns a chunk without bytes; a chunk pushed to a flowing
  stream that has made its first call of \<^verbatim>\<open>_read\<close> goes to the \<^verbatim>\<open>data\<close> listeners.
\<close>

lemma push_after_end_destroys:
  "run node [Push None, Push (Some ''ab'')] (BodyReadable True 16384) =
     (BodyReadable True 16384)
       \<lparr>ended := True, destroyed := True, errored := Some push_after_EOF, kDestroyed := True\<rparr>"
  by (simp add: eval_defs)

lemma read_after_getter:
  "read_method node None
     (run node [Push (Some ''ab''), Consume (Some kWebStreamType)] (BodyReadable True 16384)) =
   (Returns (Some []),
    (run node [Push (Some ''ab''), Consume (Some kWebStreamType)] (BodyReadable True 16384))
      \<lparr>state_length := 0, reading := True, sync := False, readCalls := 2,
       readableDidRead := Some True, emitted := [[]]\<rparr>)
   \<and> state_length (run node [Push (Some ''ab''), Consume (Some kWebStreamType)]
                     (BodyReadable True 16384)) = 2
   \<and> buffer (run node [Push (Some ''ab''), Consume (Some kWebStreamType)]
               (BodyReadable True 16384)) = []"
  by (simp add: eval_defs drain_Nil drain_Cons)

lemma flowing_push_emits:
  "run node [On ''data'' (UserFn 0), Read (Some 0), Push (Some ''ab'')] (BodyReadable True 16384) =
     (BodyReadable True 16384)
       \<lparr>listeners := [(''data'', UserFn 0)], flowing := Some True, reading := False,
        sync := False, readCalls := 1, readableDidRead := Some True, emitted := [''ab''],
        kBody := Null\<rparr>"
  by (simp add: eval_defs)

text \<open>
  The array buffer of a small body is the shared pool, not a buffer of the body's size.
\<close>

lemma small_array_buffer:
  "accumulate node None \<lparr>al_type = kArrayBufferType, al_used = True,
                          al_body = ArrBody [''abc'', ''defg''], al_promise = Pending\<rparr> =
     Inr \<lparr>al_type = kArrayBufferType, al_used = True, al_body = ArrBody [''abc'', ''defg''],
          al_promise = Resolved (VArrayBuffer (SharedPool ''abcdefg''))\<rparr>
   \<and> byteLength (SharedPool ''abcdefg'') = 8192"
  by (simp add: accumulate_def resolve_def backing_store_def)

section \<open>Usage errors of \<^verbatim>\<open>consume\<close>\<close>

text \<open>
  C9. A consumption attempted while \<^verbatim>\<open>bodyUsed\<close> is true, with any type or with
  none, throws the \<^verbatim>\<open>TypeError\<close> with the message \<^verbatim>\<open>disturbed\<close> and leaves the
  object as it was: nothing is installed.
\<close>

theorem consume_disturbed:
  "bodyUsed s \<Longrightarrow> consume node type s = (Throws (TypeError ''disturbed''), s)"
  by (simp add: consume_def)

text \<open>The body was read through \<^verbatim>\<open>read\<close>; \<^verbatim>\<open>text()\<close> is then refused.\<close>

theorem consume_disturbed_witness:
  "bodyUsed (run node_digit [Push (Some ''ab''), Read None] (BodyReadable True 16384))
   \<and> consume node_digit (Some kTextType)
        (run node_digit [Push (Some ''ab''), Read None] (BodyReadable True 16384))
     = (Throws (TypeError ''disturbed''),
        run node_digit [Push (Some ''ab''), Read None] (BodyReadable True 16384))"
proof -
  have h: "bodyUsed (run node_digit [Push (Some ''ab''), Read None] (BodyReadable True 16384))"
    by (simp add: eval_defs)
  from h consume_disturbed [OF h] show ?thesis
    by blast
qed

text \<open>
  C3, as the code has it. While a lock object is installed, every further consumption,
  with any type or with none, throws a \<^verbatim>\<open>TypeError\<close> and changes nothing; the message
  is \<^verbatim>\<open>disturbed\<close> when the lock has already been fed a chunk or the end, because
  \<^verbatim>\<open>bodyUsed\<close> is tested first, and \<^verbatim>\<open>locked\<close> only otherwise.
\<close>

theorem consume_on_lock:
  "truthy (kBody s) \<Longrightarrow>
   consume node type s = (Throws (TypeError (if bodyUsed s then ''disturbed'' else ''locked'')), s)"
  by (simp add: consume_def)

theorem consume_on_lock_witness:
  "truthy (kBody (run node_digit [Consume (Some kWebStreamType)] (BodyReadable True 16384)))
   \<and> consume node_digit (Some kJSONType)
        (run node_digit [Consume (Some kWebStreamType)] (BodyReadable True 16384))
     = (Throws (TypeError ''locked''),
        run node_digit [Consume (Some kWebStreamType)] (BodyReadable True 16384))"
proof -
  have h: "truthy (kBody (run node_digit [Consume (Some kWebStreamType)] (BodyReadable True 16384)))"
    unfolding web_installed by simp
  have u: "\<not> bodyUsed (run node_digit [Consume (Some kWebStreamType)] (BodyReadable True 16384))"
    unfolding web_installed by (simp add: bodyUsed_def)
  from h u consume_on_lock [OF h, of node_digit "Some kJSONType"] show ?thesis
    by simp
qed

text \<open>
  The claim as stated fails once a chunk went through the first lock: after
  \<^verbatim>\<open>body\<close> and \<^verbatim>\<open>push("ab")\<close>, \<^verbatim>\<open>text()\<close> throws \<^verbatim>\<open>disturbed\<close>, not
  \<^verbatim>\<open>locked\<close>.
\<close>

theorem second_consume_disturbed_counterexample:
  "fst (consume node_digit (Some kTextType)
          (run node_digit [Consume (Some kWebStreamType), Push (Some ''ab'')]
             (BodyReadable True 16384)))
     = Throws (TypeError ''disturbed'')
   \<and> fst (consume node_digit (Some kTextType)
          (run node_digit [Consume (Some kWebStreamType), Push (Some ''ab'')]
             (BodyReadable True 16384)))
     \<noteq> Throws (TypeError ''locked'')"
  by (simp add: eval_defs drain_Nil)

section \<open>\<^verbatim>\<open>destroy\<close>\<close>

lemma destroy_idempotent: "kDestroyed s \<Longrightarrow> destroy err s = s"
  by (simp add: destroy_def)

lemma destroy_destroyed: "(kDestroyed s \<longrightarrow> destroyed s) \<Longrightarrow> destroyed (destroy err s)"
  by (simp add: destroy_def Readable_destroy_def)

text \<open>
  C5, as the code has it. On an object that \<^verbatim>\<open>destroy\<close> has already torn down,
  \<^verbatim>\<open>destroy\<close> does nothing. Otherwise \<^verbatim>\<open>destroy()\<close> without error hands an
  \<^verbatim>\<open>AbortError\<close> to the base teardown exactly when \<^verbatim>\<open>this[kBody]\<close> is a lock
  object and \<^verbatim>\<open>endEmitted\<close> is false, and no error otherwise (so none after the
  natural end); an error that the caller supplies is handed on as it is.
\<close>

theorem destroy_teardown_error:
  "(kDestroyed s \<longrightarrow> destroy err s = s)
   \<and> (\<not> kDestroyed s \<longrightarrow>
        destroy None s =
          Readable_destroy (if truthy (kBody s) \<and> \<not> endEmitted s then Some AbortError else None)
            (s\<lparr>kDestroyed := True\<rparr>)
        \<and> destroy (Some e) s = Readable_destroy (Some e) (s\<lparr>kDestroyed := True\<rparr>))"
  by (simp add: destroy_def destroy_err_def)

theorem destroy_teardown_error_witness:
  "\<not> kDestroyed (run node_digit [Consume (Some kWebStreamType)] (BodyReadable True 16384))
   \<and> errored (destroy None (run node_digit [Consume (Some kWebStreamType)] (BodyReadable True 16384)))
       = Some AbortError
   \<and> errored (destroy (Some (Error ''boom''))
                (run node_digit [Consume (Some kWebStreamType)] (BodyReadable True 16384)))
       = Some (Error ''boom'')
   \<and> \<not> kDestroyed ((run node_digit [Consume (Some kWebStreamType)] (BodyReadable True 16384))
                      \<lparr>endEmitted := True\<rparr>)
   \<and> errored (destroy None ((run node_digit [Consume (Some kWebStreamType)] (BodyReadable True 16384))
                               \<lparr>endEmitted := True\<rparr>))
       = None
   \<and> kDestroyed ((run node_digit [Consume (Some kWebStreamType)] (BodyReadable True 16384))
                    \<lparr>kDestroyed := True\<rparr>)
   \<and> destroy None ((run node_digit [Consume (Some kWebStreamType)] (BodyReadable True 16384))
                      \<lparr>kDestroyed := True\<rparr>)
       = (run node_digit [Consume (Some kWebStreamType)] (BodyReadable True 16384))
           \<lparr>kDestroyed := True\<rparr>"
proof -
  let ?s = "run node_digit [Consume (Some kWebStreamType)] (BodyReadable True 16384)"
  have h1: "\<not> kDestroyed ?s"
    unfolding web_installed by simp
  have h2: "\<not> kDestroyed (?s\<lparr>endEmitted := True\<rparr>)"
    unfolding web_installed by simp
  have h3: "kDestroyed (?s\<lparr>kDestroyed := True\<rparr>)"
    by simp
  show ?thesis
    using h1 h2 h3
      destroy_teardown_error [of ?s None "Error ''boom''"]
      destroy_teardown_error [of "?s\<lparr>endEmitted := True\<rparr>" None "Error ''boom''"]
      destroy_teardown_error [of "?s\<lparr>kDestroyed := True\<rparr>" None "Error ''boom''"]
    unfolding web_installed by (simp add: Readable_destroy_def)
qed

text \<open>
  The claim as stated fails in two places. A lock exists and the end has not been
  emitted, yet \<^verbatim>\<open>destroy()\<close> makes no \<^verbatim>\<open>AbortError\<close>: on an object already destroyed
  with an error of the caller, which keeps that error; and after the legacy gate
  (\<^verbatim>\<open>resume()\<close>), whose marker \<^verbatim>\<open>null\<close> is falsy, where the teardown gets no error.
\<close>

theorem destroy_no_abort_counterexample:
  "truthy (kBody (run node_digit [Consume (Some kWebStreamType), Destroy (Some (Error ''boom''))] (BodyReadable True 16384)))
   \<and> \<not> endEmitted (run node_digit [Consume (Some kWebStreamType), Destroy (Some (Error ''boom''))] (BodyReadable True 16384))
   \<and> errored (destroy None (run node_digit [Consume (Some kWebStreamType), Destroy (Some (Error ''boom''))] (BodyReadable True 16384)))
       = Some (Error ''boom'')
   \<and> kBody (run node_digit [Resume] (BodyReadable True 16384)) = Null
   \<and> \<not> endEmitted (run node_digit [Resume] (BodyReadable True 16384))
   \<and> errored (destroy None (run node_digit [Resume] (BodyReadable True 16384))) = None
   \<and> destroyed (destroy None (run node_digit [Resume] (BodyReadable True 16384)))"
  by (simp add: eval_defs drain_Nil)

section \<open>\<^verbatim>\<open>push\<close>\<close>

text \<open>
  C8, as the code has it. With a lock object installed, of the web stream or of a
  promise, a \<^verbatim>\<open>push\<close> on a destroyed stream returns \<^verbatim>\<open>false\<close> and leaves the whole
  object as it was: the accumulator, the controller and the base stream. The test of
  \<^verbatim>\<open>self.destroyed\<close> is the first statement of both lock functions. Without a lock
  object (before any consumption and after the legacy gate) the \<^verbatim>\<open>push\<close> of the class
  makes no such test and hands the value to the \<^verbatim>\<open>push\<close> of the base class, which on
  a destroyed stream refuses a chunk that holds bytes, but still marks the end for
  \<^verbatim>\<open>null\<close>, and for a chunk without bytes answers whether more data is wanted.
\<close>

theorem push_after_destroy:
  "(truthy (kBody s) \<and> destroyed s \<longrightarrow> push node val s = (Returns False, s))
   \<and> (\<not> truthy (kBody s) \<longrightarrow>
        push node val s =
          (Returns (fst (Readable_push destroy val s)), snd (Readable_push destroy val s)))
   \<and> (\<not> truthy (kBody s) \<and> destroyed s \<longrightarrow>
        (c \<noteq> [] \<longrightarrow> push node (Some c) s = (Returns False, s))
        \<and> push node None s = (Returns False, s\<lparr>reading := False, ended := True\<rparr>)
        \<and> push node (Some []) s = (Returns (wants_more s), s\<lparr>reading := False\<rparr>))"
  by (cases "kBody s")
     (simp_all add: push_def kbody_push_def web_push_def acc_push_def Readable_push_def
        errorOrDestroy_def)

theorem push_after_destroy_witness:
  "truthy (kBody (destroy None (run node_digit [Consume (Some kWebStreamType)] (BodyReadable True 16384))))
   \<and> destroyed (destroy None (run node_digit [Consume (Some kWebStreamType)] (BodyReadable True 16384)))
   \<and> push node_digit (Some ''ab'')
        (destroy None (run node_digit [Consume (Some kWebStreamType)] (BodyReadable True 16384)))
     = (Returns False,
        destroy None (run node_digit [Consume (Some kWebStreamType)] (BodyReadable True 16384)))
   \<and> \<not> truthy (kBody (destroy None (BodyReadable True 16384 :: nat body_readable)))
   \<and> destroyed (destroy None (BodyReadable True 16384 :: nat body_readable))
   \<and> push node_digit (Some ''ab'') (destroy None (BodyReadable True 16384))
     = (Returns False, destroy None (BodyReadable True 16384))
   \<and> push node_digit None (destroy None (BodyReadable True 16384))
     = (Returns False, (destroy None (BodyReadable True 16384))\<lparr>reading := False, ended := True\<rparr>)"
proof -
  let ?w = "destroy None (run node_digit [Consume (Some kWebStreamType)] (BodyReadable True 16384))"
  let ?u = "destroy None (BodyReadable True 16384 :: nat body_readable)"
  have h1: "truthy (kBody ?w)" and h2: "destroyed ?w"
    unfolding web_installed by (simp_all add: destroy_def Readable_destroy_def)
  have h3: "\<not> truthy (kBody ?u)" and h4: "destroyed ?u"
    by (simp_all add: destroy_def Readable_destroy_def BodyReadable_def)
  have h5: "''ab'' \<noteq> []"
    by simp
  from h1 h2 h3 h4 h5
    push_after_destroy [of ?w node_digit "Some ''ab''" "''ab''"]
    push_after_destroy [of ?u node_digit "Some ''ab''" "''ab''"]
  show ?thesis
    by blast
qed

text \<open>
  The claim as stated fails in the mode without lock object: after \<^verbatim>\<open>resume()\<close> and
  \<^verbatim>\<open>destroy()\<close>, \<^verbatim>\<open>push(null)\<close> sets \<^verbatim>\<open>ended\<close> on the base stream, and the push of
  a chunk without bytes returns \<^verbatim>\<open>true\<close>.
\<close>

theorem push_after_destroy_counterexample:
  "destroyed (run node_digit [Resume, Destroy None] (BodyReadable True 16384))
   \<and> \<not> ended (run node_digit [Resume, Destroy None] (BodyReadable True 16384))
   \<and> ended (snd (push node_digit None
                    (run node_digit [Resume, Destroy None] (BodyReadable True 16384))))
   \<and> fst (push node_digit (Some [])
             (run node_digit [Resume, Destroy None] (BodyReadable True 16384)))
       = Returns True"
  by (simp add: eval_defs)

text \<open>Any number of pushes after the teardown leaves the object unchanged.\<close>

lemma pushes_after_destroy:
  "truthy (kBody s) \<Longrightarrow> destroyed s \<Longrightarrow> run node (map Push vals) s = s"
  by (induction vals)
     (simp_all add: push_def kbody_push_def web_push_def acc_push_def split: kbody.splits)

text \<open>
  C6, as the code has it. With the lock of the web stream installed, the stream not
  destroyed, the controller attached and still open (no close requested, the web stream
  readable), \<^verbatim>\<open>push\<close> of a chunk enqueues a \<^verbatim>\<open>Uint8Array\<close> with the chunk's bytes at
  the end of the controller's queue, marks the lock used, and returns whether
  \<^verbatim>\<open>desiredSize\<close>, read after the enqueue, is greater than zero.
\<close>

theorem web_push_chunk:
  assumes "kBody s = WebLock l" and "\<not> destroyed s"
    and "wl_controller l = Some c" and "canCloseOrEnqueue c"
  shows "push node (Some v) s =
           (Returns (gt_zero (desiredSize (c\<lparr>queue := queue c @ [Uint8Array v]\<rparr>))),
            s\<lparr>kBody := WebLock (l\<lparr>wl_used := True,
                                   wl_controller := Some (c\<lparr>queue := queue c @ [Uint8Array v]\<rparr>)\<rparr>)\<rparr>)
         \<and> (gt_zero (desiredSize (c\<lparr>queue := queue c @ [Uint8Array v]\<rparr>))
              \<longleftrightarrow> int (length (queue c)) + 1 < highWaterMark c)"
  using assms
  by (auto simp add: push_def kbody_push_def web_push_def enqueue_def desiredSize_def gt_zero_def
        canCloseOrEnqueue_def)

theorem web_push_chunk_witness:
  "kBody (run node_digit [Consume (Some kWebStreamType)] (BodyReadable True 16384))
     = WebLock \<lparr>wl_used = False, wl_controller = Some (new_controller 16384)\<rparr>
   \<and> \<not> destroyed (run node_digit [Consume (Some kWebStreamType)] (BodyReadable True 16384))
   \<and> canCloseOrEnqueue (new_controller 16384)
   \<and> push node_digit (Some ''ab'') (run node_digit [Consume (Some kWebStreamType)] (BodyReadable True 16384))
     = (Returns True,
        (run node_digit [Consume (Some kWebStreamType)] (BodyReadable True 16384))
          \<lparr>kBody := WebLock \<lparr>wl_used = True,
                              wl_controller = Some ((new_controller 16384)\<lparr>queue := [''ab'']\<rparr>)\<rparr>\<rparr>)"
proof -
  let ?s = "run node_digit [Consume (Some kWebStreamType)] (BodyReadable True 16384)"
  have h1: "kBody ?s = WebLock \<lparr>wl_used = False, wl_controller = Some (new_controller 16384)\<rparr>"
    unfolding web_installed by (simp add: new_controller_def)
  have h2: "\<not> destroyed ?s"
    unfolding web_installed by simp
  have h3: "wl_controller \<lparr>wl_used = False, wl_controller = Some (new_controller 16384)\<rparr>
              = Some (new_controller 16384)"
    by simp
  have h4: "canCloseOrEnqueue (new_controller 16384)"
    by (simp add: canCloseOrEnqueue_def new_controller_def)
  from h1 h2 h4 web_push_chunk [OF h1 h2 h3 h4, of node_digit "''ab''"] show ?thesis
    by (simp add: new_controller_def Uint8Array_def desiredSize_def gt_zero_def)
qed

text \<open>
  The claim as stated fails after the end sentinel: \<^verbatim>\<open>push(null)\<close> closes the
  controller, the stream is not destroyed and the controller is attached, and the next
  \<^verbatim>\<open>push\<close> of a chunk throws out of \<^verbatim>\<open>enqueue\<close>; nothing is enqueued and nothing is
  returned.
\<close>

theorem web_push_after_end_counterexample:
  "\<not> destroyed (run node_digit [Consume (Some kWebStreamType), Push None] (BodyReadable True 16384))
   \<and> kBody (run node_digit [Consume (Some kWebStreamType), Push None] (BodyReadable True 16384))
       = WebLock \<lparr>wl_used = True,
                  wl_controller = Some \<lparr>queue = [], closeRequested = True, rs_state = Closed,
                                        highWaterMark = 16384\<rparr>\<rparr>
   \<and> push node_digit (Some ''ab'')
        (run node_digit [Consume (Some kWebStreamType), Push None] (BodyReadable True 16384))
     = (Throws (TypeError ''Invalid state: Controller is already closed''),
        run node_digit [Consume (Some kWebStreamType), Push None] (BodyReadable True 16384))"
  by (simp add: eval_defs drain_Nil)

text \<open>
  With the lock of a promise installed (text, json, blob or arrayBuffer), a \<^verbatim>\<open>push\<close>
  that passes the test of \<^verbatim>\<open>self.destroyed\<close> and whose \<^verbatim>\<open>try\<close> block does not throw
  returns \<^verbatim>\<open>true\<close>, for a chunk whatever the body already holds and for the end
  sentinel.
\<close>

lemma acc_push_returns_true:
  assumes "kBody s = AccLock l" and "\<not> destroyed s"
    and "accumulate node val (l\<lparr>al_used := True\<rparr>) = Inr l'"
  shows "fst (push node val s) = Returns True"
  using assms by (simp add: push_def kbody_push_def acc_push_def split: option.splits)

text \<open>A text lock that holds \<^verbatim>\<open>"ab"\<close>, set up directly.\<close>

definition text_locked :: "nat body_readable" where
  "text_locked =
     (BodyReadable True 16384)
       \<lparr>kBody := AccLock \<lparr>al_type = kTextType, al_used = True, al_body = StrBody ''ab'',
                           al_promise = Pending\<rparr>\<rparr>"

lemma acc_push_returns_true_example:
  "kBody text_locked = AccLock \<lparr>al_type = kTextType, al_used = True, al_body = StrBody ''ab'', al_promise = Pending\<rparr>
   \<and> \<not> destroyed text_locked
   \<and> accumulate node_digit (Some ''cd'')
        (\<lparr>al_type = kTextType, al_used = True, al_body = StrBody ''ab'', al_promise = Pending\<rparr>\<lparr>al_used := True\<rparr>)
      = Inr \<lparr>al_type = kTextType, al_used = True, al_body = StrBody ''abcd'', al_promise = Pending\<rparr>
   \<and> fst (push node_digit (Some ''cd'') text_locked) = Returns True"
proof -
  have h1: "kBody text_locked = AccLock \<lparr>al_type = kTextType, al_used = True, al_body = StrBody ''ab'', al_promise = Pending\<rparr>"
    by (simp add: text_locked_def BodyReadable_def)
  have h2: "\<not> destroyed text_locked"
    by (simp add: text_locked_def BodyReadable_def)
  have h3: "accumulate node_digit (Some ''cd'')
        (\<lparr>al_type = kTextType, al_used = True, al_body = StrBody ''ab'', al_promise = Pending\<rparr>\<lparr>al_used := True\<rparr>)
      = Inr \<lparr>al_type = kTextType, al_used = True, al_body = StrBody ''abcd'', al_promise = Pending\<rparr>"
    by (simp add: accumulate_def plus_assign_def node_digit_def)
  from h1 h2 h3 acc_push_returns_true [OF h1 h2 h3] show ?thesis
    by blast
qed

text \<open>The only \<^verbatim>\<open>false\<close> of such a push comes from the teardown or from the \<^verbatim>\<open>catch\<close>.\<close>

lemma acc_push_false_iff:
  assumes "kBody s = AccLock l"
  shows "fst (push node val s) =
           Returns (\<not> destroyed s \<and> (\<exists>l'. accumulate node val (l\<lparr>al_used := True\<rparr>) = Inr l'))"
  using assms
  by (auto simp add: push_def kbody_push_def acc_push_def Let_def split: option.splits sum.splits)

section \<open>\<^verbatim>\<open>start\<close> drains the backlog\<close>

text \<open>A push of a lock neither reads nor writes the backlog, and a chunk leaves \<^verbatim>\<open>ended\<close> alone.\<close>

lemma kbody_push_buffer_upd:
  "kbody_push node v (s\<lparr>buffer := b\<rparr>) =
     (fst (kbody_push node v s), (snd (kbody_push node v s))\<lparr>buffer := b\<rparr>)"
  by (simp add: kbody_push_def web_push_def acc_push_def Let_def destroy_def destroy_err_def
        Readable_destroy_def Readable_push_def
        split: kbody.splits option.splits sum.splits)

lemma kbody_push_chunk_ended:
  "ended (snd (kbody_push node (Some c) s)) = ended s"
  by (simp add: kbody_push_def web_push_def acc_push_def Let_def destroy_def destroy_err_def
        Readable_destroy_def
        split: kbody.splits option.splits sum.splits)

lemma kbody_push_listeners:
  "listeners (snd (kbody_push node v s)) = listeners s"
  by (simp add: kbody_push_def web_push_def acc_push_def Let_def destroy_def destroy_err_def
        Readable_destroy_def Readable_push_def
        split: kbody.splits option.splits sum.splits)

lemma feed_append:
  "feed node (xs @ ys) s =
     (case feed node xs s of
        (Throws e, s') \<Rightarrow> (Throws e, s')
      | (Returns u, s') \<Rightarrow> feed node ys s')"
  by (induction xs arbitrary: s) (auto split: prod.splits outcome.splits)

lemma feed_chunks_ended:
  "ended (snd (feed node (map Some cs) s)) = ended s"
proof (induction cs arbitrary: s)
  case Nil
  show ?case by simp
next
  case (Cons c cs)
  obtain r s1 where p: "kbody_push node (Some c) s = (r, s1)"
    by (cases "kbody_push node (Some c) s")
  have e: "ended s1 = ended s"
    using kbody_push_chunk_ended [of node c s] p by simp
  show ?case
    using p e Cons.IH [of s1] by (cases r) simp_all
qed

lemma feed_buffer:
  "buffer (snd (feed node vs s)) = buffer s"
proof (induction vs arbitrary: s)
  case Nil
  show ?case by simp
next
  case (Cons v vs)
  obtain r s1 where p: "kbody_push node v s = (r, s1)"
    by (cases "kbody_push node v s")
  have e: "buffer s1 = buffer s"
    using kbody_push_buffer [of node v s] p by simp
  show ?case
    using p e Cons.IH [of s1] by (cases r) simp_all
qed

lemma no_lock_push: "\<not> truthy (kBody s) \<Longrightarrow> kbody_push node v s = (Throws no_push, s)"
  by (cases "kBody s") (simp_all add: kbody_push_def)

lemma drain_feed:
  "buffer s = cs \<Longrightarrow>
   (case feed node (map Some cs) (s\<lparr>buffer := []\<rparr>) of
      (Returns u, s') \<Rightarrow> drain node s = (Returns (), s')
    | (Throws e, s') \<Rightarrow> fst (drain node s) = Throws e)"
proof (induction cs arbitrary: s)
  case Nil
  then show ?case by (simp add: drain_Nil)
next
  case (Cons c cs)
  obtain r s1 where p: "kbody_push node (Some c) s = (r, s1)"
    by (cases "kbody_push node (Some c) s")
  have p_cs: "kbody_push node (Some c) (s\<lparr>buffer := cs\<rparr>) = (r, s1\<lparr>buffer := cs\<rparr>)"
    and p_nil: "kbody_push node (Some c) (s\<lparr>buffer := []\<rparr>) = (r, s1\<lparr>buffer := []\<rparr>)"
    using p by (simp_all add: kbody_push_buffer_upd)
  show ?case
  proof (cases "truthy (kBody s)")
    case False
    then have "kbody_push node (Some c) (s\<lparr>buffer := []\<rparr>) = (Throws no_push, s\<lparr>buffer := []\<rparr>)"
      by (simp add: no_lock_push)
    moreover have "drain node s = (Throws no_push, s)"
      using drain_Cons [OF Cons.prems, of node] False by simp
    ultimately show ?thesis
      by simp
  next
    case True
    show ?thesis
    proof (cases r)
      case (Throws e)
      have "drain node s = (Throws e, s1\<lparr>buffer := cs\<rparr>)"
        using drain_Cons [OF Cons.prems, of node] True Throws p_cs by simp
      with Throws p_nil show ?thesis
        by simp
    next
      case (Returns b)
      have "buffer (s1\<lparr>buffer := cs\<rparr>) = cs" by simp
      from Cons.IH [OF this] have
        "case feed node (map Some cs) (s1\<lparr>buffer := []\<rparr>) of
           (Returns u, s') \<Rightarrow> drain node (s1\<lparr>buffer := cs\<rparr>) = (Returns (), s')
         | (Throws e, s') \<Rightarrow> fst (drain node (s1\<lparr>buffer := cs\<rparr>)) = Throws e"
        by simp
      moreover have "drain node s = drain node (s1\<lparr>buffer := cs\<rparr>)"
        using drain_Cons [OF Cons.prems, of node] True Returns p_cs by simp
      ultimately show ?thesis
        using Returns p_nil by (simp split: prod.splits outcome.splits)
    qed
  qed
qed

text \<open>
  \<^verbatim>\<open>start\<close>, past its assertion that no \<^verbatim>\<open>data\<close> listener exists, hands every chunk
  of the backlog to the lock's \<^verbatim>\<open>push\<close> in backlog order and then, when the stream has
  ended, the end sentinel: its outcome is that of these pushes made one after the other
  on the object with the backlog emptied, and when it returns the object is the one they
  leave, with one request for more data.
\<close>

lemma start_drains_backlog:
  assumes "listenerCount ''data'' s = 0"
  shows "fst (start node s) =
           fst (feed node (map Some (buffer s) @ (if ended s then [None] else []))
                  (s\<lparr>buffer := []\<rparr>))
         \<and> (fst (start node s) = Returns () \<longrightarrow>
              snd (start node s) =
                read_hook (snd (feed node (map Some (buffer s) @ (if ended s then [None] else []))
                                  (s\<lparr>buffer := []\<rparr>))))"
proof -
  obtain r s1 where f: "feed node (map Some (buffer s)) (s\<lparr>buffer := []\<rparr>) = (r, s1)"
    by (cases "feed node (map Some (buffer s)) (s\<lparr>buffer := []\<rparr>)")
  have d: "case (r, s1) of
             (Returns u, s') \<Rightarrow> drain node s = (Returns (), s')
           | (Throws e, s') \<Rightarrow> fst (drain node s) = Throws e"
    using drain_feed [of s "buffer s" node] f by simp
  have e: "ended s1 = ended s"
    using feed_chunks_ended [of node "buffer s" "s\<lparr>buffer := []\<rparr>"] f by simp
  show ?thesis
  proof (cases r)
    case (Throws x)
    with d obtain s2 where "drain node s = (Throws x, s2)"
      by (cases "drain node s") simp
    with assms f Throws show ?thesis
      by (simp add: start_def feed_append)
  next
    case (Returns u)
    with d have dr: "drain node s = (Returns (), s1)" by simp
    show ?thesis
    proof (cases "ended s")
      case False
      with assms f Returns dr e show ?thesis
        by (simp add: start_def feed_append)
    next
      case True
      obtain r2 s2 where p: "kbody_push node None s1 = (r2, s2)"
        by (cases "kbody_push node None s1")
      with assms f Returns dr e True show ?thesis
        by (cases r2) (simp_all add: start_def feed_append)
    qed
  qed
qed


text \<open>What the pushes of the drain do to the lock of the web stream.\<close>

lemma feed_on_destroyed:
  assumes "truthy (kBody s)" and "destroyed s"
  shows "feed node vs s = (Returns (), s)"
proof -
  have "kbody_push node v s = (Returns False, s)" for v
    using assms by (cases "kBody s") (simp_all add: kbody_push_def web_push_def acc_push_def)
  then show ?thesis
    by (induction vs) simp_all
qed

lemma feed_web_chunks:
  assumes "kBody s = WebLock l" and "wl_controller l = Some c"
    and "canCloseOrEnqueue c" and "\<not> destroyed s"
  shows "feed node (map Some cs) s =
           (Returns (),
            s\<lparr>kBody := WebLock \<lparr>wl_used = (wl_used l \<or> cs \<noteq> []),
                                wl_controller = Some (c\<lparr>queue := queue c @ map Uint8Array cs\<rparr>)\<rparr>\<rparr>)"
  using assms
proof (induction cs arbitrary: s l c)
  case Nil
  have "l = \<lparr>wl_used = wl_used l, wl_controller = Some c\<rparr>"
    using Nil.prems(2) by (cases l) simp
  then have "s\<lparr>kBody := WebLock \<lparr>wl_used = wl_used l, wl_controller = Some c\<rparr>\<rparr> = s"
    using Nil.prems(1) by simp
  then show ?case
    by simp
next
  case (Cons x xs)
  let ?c = "c\<lparr>queue := queue c @ [Uint8Array x]\<rparr>"
  let ?l = "\<lparr>wl_used = True, wl_controller = Some ?c\<rparr>"
  let ?s = "s\<lparr>kBody := WebLock ?l\<rparr>"
  have p: "kbody_push node (Some x) s = (Returns (gt_zero (desiredSize ?c)), ?s)"
    using Cons.prems by (simp add: kbody_push_def web_push_def enqueue_def)
  have "feed node (map Some xs) ?s =
          (Returns (),
           ?s\<lparr>kBody := WebLock \<lparr>wl_used = (wl_used ?l \<or> xs \<noteq> []),
                                wl_controller = Some (?c\<lparr>queue := queue ?c @ map Uint8Array xs\<rparr>)\<rparr>\<rparr>)"
    using Cons.prems by (intro Cons.IH) (simp_all add: canCloseOrEnqueue_def)
  with p show ?case
    by simp
qed

text \<open>
  C7, as the code has it. On a stream that passes the two guards of \<^verbatim>\<open>consume\<close>, the
  getter \<^verbatim>\<open>body\<close> registers its two listeners and installs the lock of the web
  stream. With no \<^verbatim>\<open>data\<close> listener on the stream it then empties the backlog into
  the lock before it returns: on a stream that is not destroyed the controller's queue
  holds a copy of every chunk of the backlog, in backlog order, and the controller is
  closed when the stream had ended; on a destroyed stream the chunks are taken off the
  backlog and the lock's push drops them. The count of bytes of the base class stays as
  it was. With a \<^verbatim>\<open>data\<close> listener on the stream the getter installs the lock and
  throws the \<^verbatim>\<open>AssertionError\<close> of \<^verbatim>\<open>start\<close>, and the backlog stays where it is.
\<close>

theorem body_getter_drains_backlog:
  assumes "\<not> bodyUsed s" and "\<not> truthy (kBody s)"
  shows "(listenerCount ''data'' s = 0 \<and> \<not> destroyed s \<longrightarrow>
            consume node (Some kWebStreamType) s =
              (Returns WebStreamObj,
               s\<lparr>listeners := listeners s @ [(''error'', ControllerError), (''end'', EndTeardown)],
                 buffer := [],
                 readCalls := Suc (readCalls s),
                 microtasks := (if ended s then Suc (microtasks s) else microtasks s),
                 kBody := WebLock
                   \<lparr>wl_used = (buffer s \<noteq> [] \<or> ended s),
                    wl_controller =
                      Some \<lparr>queue = map Uint8Array (buffer s), closeRequested = ended s,
                            rs_state = (if ended s \<and> buffer s = [] then Closed else Readable),
                            highWaterMark = 16 * 1024\<rparr>\<rparr>\<rparr>))
         \<and> (listenerCount ''data'' s = 0 \<and> destroyed s \<longrightarrow>
            consume node (Some kWebStreamType) s =
              (Returns WebStreamObj,
               s\<lparr>listeners := listeners s @ [(''error'', ControllerError), (''end'', EndTeardown)],
                 buffer := [],
                 readCalls := Suc (readCalls s),
                 kBody := WebLock \<lparr>wl_used = False,
                                    wl_controller = Some (new_controller (16 * 1024))\<rparr>\<rparr>))
         \<and> (listenerCount ''data'' s \<noteq> 0 \<longrightarrow>
            consume node (Some kWebStreamType) s =
              (Throws AssertionError,
               s\<lparr>listeners := listeners s @ [(''error'', ControllerError), (''end'', EndTeardown)],
                 kBody := WebLock \<lparr>wl_used = False,
                                    wl_controller = Some (new_controller (16 * 1024))\<rparr>\<rparr>))"
proof -
  let ?l = "\<lparr>wl_used = False, wl_controller = Some (new_controller (16 * 1024))\<rparr>"
  let ?i = "s\<lparr>listeners := listeners s @ [(''error'', ControllerError), (''end'', EndTeardown)],
              kBody := WebLock ?l\<rparr>"
  let ?vals = "map Some (buffer s) @ (if ended s then [None] else [])"
  have c: "consume node (Some kWebStreamType) s =
             (case start node ?i of
                (Throws e, s') \<Rightarrow> (Throws e, s')
              | (Returns u, s') \<Rightarrow> (Returns WebStreamObj, s'))"
    using assms by (simp add: consume_def source_start_def Readable_on_def)
  have n: "listenerCount ''data'' ?i = listenerCount ''data'' s"
    by (simp add: listenerCount_def)
  have a: "listenerCount ''data'' s \<noteq> 0 \<Longrightarrow> start node ?i = (Throws AssertionError, ?i)"
    using n by (simp add: start_def)
  have st: "fst (feed node ?vals (?i\<lparr>buffer := []\<rparr>)) = Returns () \<Longrightarrow>
            listenerCount ''data'' s = 0 \<Longrightarrow>
            start node ?i = (Returns (), read_hook (snd (feed node ?vals (?i\<lparr>buffer := []\<rparr>))))"
  proof -
    assume f: "fst (feed node ?vals (?i\<lparr>buffer := []\<rparr>)) = Returns ()"
      and z: "listenerCount ''data'' s = 0"
    have z': "listenerCount ''data'' ?i = 0"
      using n z by simp
    from start_drains_backlog [OF z', of node] f
    have "fst (start node ?i) = Returns ()"
      and "snd (start node ?i) = read_hook (snd (feed node ?vals (?i\<lparr>buffer := []\<rparr>)))"
      by simp_all
    then show ?thesis
      by (metis prod.collapse)
  qed
  have d: "destroyed s \<Longrightarrow> feed node ?vals (?i\<lparr>buffer := []\<rparr>) = (Returns (), ?i\<lparr>buffer := []\<rparr>)"
    by (rule feed_on_destroyed) simp_all
  have k: "kBody (?i\<lparr>buffer := []\<rparr>) = WebLock ?l"
    by simp
  have o: "canCloseOrEnqueue (new_controller (16 * 1024))"
    by (simp add: canCloseOrEnqueue_def new_controller_def)
  have w: "\<not> destroyed s \<Longrightarrow>
           feed node (map Some (buffer s)) (?i\<lparr>buffer := []\<rparr>) =
             (Returns (),
              ?i\<lparr>buffer := [],
                 kBody := WebLock
                   \<lparr>wl_used = (buffer s \<noteq> []),
                    wl_controller =
                      Some ((new_controller (16 * 1024))\<lparr>queue := map Uint8Array (buffer s)\<rparr>)\<rparr>\<rparr>)"
    using feed_web_chunks [OF k _ o, of node "buffer s"]
    by (simp add: new_controller_def)
  have e: "\<not> destroyed s \<Longrightarrow>
           feed node ?vals (?i\<lparr>buffer := []\<rparr>) =
             (Returns (),
              ?i\<lparr>buffer := [],
                 microtasks := (if ended s then Suc (microtasks s) else microtasks s),
                 kBody := WebLock
                   \<lparr>wl_used = (buffer s \<noteq> [] \<or> ended s),
                    wl_controller =
                      Some \<lparr>queue = map Uint8Array (buffer s), closeRequested = ended s,
                            rs_state = (if ended s \<and> buffer s = [] then Closed else Readable),
                            highWaterMark = 16 * 1024\<rparr>\<rparr>\<rparr>)"
    using w
    by (simp add: feed_append kbody_push_def web_push_def close_def canCloseOrEnqueue_def
          new_controller_def)
  show ?thesis
    using a c d e st by (simp add: read_hook_def)
qed

text \<open>A stream that holds two chunks and the end, and one that holds a chunk and has a listener.\<close>

theorem body_getter_drains_backlog_witness:
  "\<not> bodyUsed (run node_digit [Push (Some ''ab''), Push (Some ''cd''), Push None] (BodyReadable True 16384))
   \<and> \<not> truthy (kBody (run node_digit [Push (Some ''ab''), Push (Some ''cd''), Push None]
                         (BodyReadable True 16384)))
   \<and> listenerCount ''data'' (run node_digit [Push (Some ''ab''), Push (Some ''cd''), Push None]
                               (BodyReadable True 16384)) = 0
   \<and> \<not> destroyed (run node_digit [Push (Some ''ab''), Push (Some ''cd''), Push None]
                     (BodyReadable True 16384))
   \<and> consume node_digit (Some kWebStreamType)
        (run node_digit [Push (Some ''ab''), Push (Some ''cd''), Push None] (BodyReadable True 16384))
     = (Returns WebStreamObj,
        (BodyReadable True 16384)
          \<lparr>listeners := [(''error'', ControllerError), (''end'', EndTeardown)],
           buffer := [], state_length := 4, ended := True, readCalls := 1, microtasks := 1,
           kBody := WebLock
             \<lparr>wl_used = True,
              wl_controller = Some \<lparr>queue = [''ab'', ''cd''], closeRequested = True,
                                    rs_state = Readable, highWaterMark = 16384\<rparr>\<rparr>\<rparr>)"
proof -
  let ?s = "run node_digit [Push (Some ''ab''), Push (Some ''cd''), Push None] (BodyReadable True 16384)"
  have s: "?s = (BodyReadable True 16384)\<lparr>buffer := [''ab'', ''cd''], state_length := 4, ended := True\<rparr>"
    by (simp add: eval_defs)
  have h1: "\<not> bodyUsed ?s" and h2: "\<not> truthy (kBody ?s)"
    and h3: "listenerCount ''data'' ?s = 0" and h4: "\<not> destroyed ?s"
    unfolding s by (simp_all add: bodyUsed_def BodyReadable_def listenerCount_def)
  from h1 h2 h3 h4 body_getter_drains_backlog [OF h1 h2, of node_digit]
  show ?thesis
    unfolding s by (simp add: BodyReadable_def Uint8Array_def)
qed

text \<open>
  The claim as stated fails where the stream has a \<^verbatim>\<open>data\<close> listener, which the
  legacy gate allows: after \<^verbatim>\<open>push("ab")\<close> and \<^verbatim>\<open>on("data", f)\<close> the getter
  \<^verbatim>\<open>body\<close> installs its lock and throws; the chunk is still in the backlog and the
  lock has seen nothing. The legacy gate itself hands the backlog to no lock.
\<close>

theorem body_getter_asserts_counterexample:
  "fst (consume node_digit (Some kWebStreamType)
          (run node_digit [Push (Some ''ab''), On ''data'' (UserFn 0)] (BodyReadable True 16384)))
     = Throws AssertionError
   \<and> buffer (snd (consume node_digit (Some kWebStreamType)
          (run node_digit [Push (Some ''ab''), On ''data'' (UserFn 0)] (BodyReadable True 16384))))
     = [''ab'']
   \<and> kBody (snd (consume node_digit (Some kWebStreamType)
          (run node_digit [Push (Some ''ab''), On ''data'' (UserFn 0)] (BodyReadable True 16384))))
     = WebLock \<lparr>wl_used = False, wl_controller = Some (new_controller 16384)\<rparr>
   \<and> kBody (run node_digit [Push (Some ''ab''), Consume None] (BodyReadable True 16384)) = Null
   \<and> buffer (run node_digit [Push (Some ''ab''), Consume None] (BodyReadable True 16384)) = [''ab'']"
  by (simp add: eval_defs)

section \<open>The lock over the lifetime of the object\<close>


lemma Readable_destroy_kBody: "kBody (Readable_destroy e s) = kBody s"
  by (simp add: Readable_destroy_def)

lemma destroy_kBody: "kBody (destroy e s) = kBody s"
  by (simp add: destroy_def Readable_destroy_kBody)

lemma Readable_push_kBody: "kBody (snd (Readable_push destroy val s)) = kBody s"
  by (simp add: Readable_push_def errorOrDestroy_def addChunk_def destroy_kBody
        split: option.splits)

lemma doRead_kBody: "kBody (doRead m s) = kBody s"
  by (simp add: doRead_def read_hook_def)

lemma fromList_kBody: "fromList m s = Inr (d, s') \<Longrightarrow> kBody s' = kBody s"
  by (auto simp add: fromList_def split: if_splits list.splits)

lemma read_data_kBody: "kBody (snd (read_data m s)) = kBody s"
  by (auto simp add: read_data_def dest!: fromList_kBody split: sum.splits prod.splits option.splits)

lemma Readable_read_kBody: "kBody (snd (Readable_read n s)) = kBody s"
  by (simp add: Readable_read_def raiseHighWaterMark_def doRead_kBody read_data_kBody
        split: sum.splits option.splits)

lemma Readable_resume_kBody: "kBody (Readable_resume s) = kBody s"
  by (simp add: Readable_resume_def)

lemma Readable_on_kBody: "kBody (Readable_on ev fn s) = kBody s"
  by (simp add: Readable_on_def Readable_resume_def Let_def)

lemma Readable_pipe_kBody: "kBody (Readable_pipe s) = kBody s"
  by (simp add: Readable_pipe_def Readable_on_kBody Readable_resume_kBody Let_def)




















section \<open>The promises of \<^verbatim>\<open>text\<close>, \<^verbatim>\<open>json\<close>, \<^verbatim>\<open>blob\<close> and \<^verbatim>\<open>arrayBuffer\<close>\<close>

text \<open>
  The object literal of the lock reads \<^verbatim>\<open>this.type\<close> where \<^verbatim>\<open>this\<close> is
  \<^verbatim>\<open>undefined\<close>: the function handed to \<^verbatim>\<open>new Promise\<close> throws before the lock
  exists, the promise is rejected with that \<^verbatim>\<open>TypeError\<close>, no lock is installed and
  \<^verbatim>\<open>start\<close> does not run.
\<close>

lemma promise_consume_rejected:
  assumes "\<not> bodyUsed s" and "\<not> truthy (kBody s)" and "t \<noteq> kWebStreamType"
  shows "consume node (Some t) s =
           (Returns (PromiseObj (Rejected undefined_read)),
            Readable_on ''end'' EndTeardown (Readable_on ''error'' Reject s))"
  using assms
  by (simp add: consume_def promise_executor_def consume_this_def get_type_def Let_def)

text \<open>
  C1. The claim is that after \<^verbatim>\<open>text()\<close> the chunks \<^verbatim>\<open>"ab"\<close>, \<^verbatim>\<open>"cd"\<close> and the
  end resolve the promise to \<^verbatim>\<open>"abcd"\<close>. In the code \<^verbatim>\<open>text()\<close> on a fresh stream
  returns a promise already rejected with the \<^verbatim>\<open>TypeError\<close>; no lock is installed,
  and the three pushes go to the backlog of the base stream.
\<close>

theorem text_promise_rejected:
  "text_method node (BodyReadable True 16384) =
     (Returns (PromiseObj (Rejected (TypeError ''Cannot read properties of undefined''))),
      (BodyReadable True 16384)\<lparr>listeners := [(''error'', Reject), (''end'', EndTeardown)]\<rparr>)
   \<and> run node [Consume (Some kTextType), Push (Some ''ab''), Push (Some ''cd''), Push None]
        (BodyReadable True 16384) =
      (BodyReadable True 16384)
        \<lparr>listeners := [(''error'', Reject), (''end'', EndTeardown)],
         buffer := [''ab'', ''cd''], state_length := 4, ended := True\<rparr>"
  by (simp add: eval_defs)

text \<open>
  C2. The claim is that after \<^verbatim>\<open>json()\<close> the end sentinel parses the text and
  resolves, or destroys the stream with the node failure. In the code \<^verbatim>\<open>json()\<close> on
  a fresh stream returns a promise already rejected with the \<^verbatim>\<open>TypeError\<close>; the chunk
  \<^verbatim>\<open>"not json"\<close> and the end go to the backlog of the base stream, nothing is parsed
  and the stream is not destroyed.
\<close>

theorem json_promise_rejected:
  "json_method node (BodyReadable True 16384) =
     (Returns (PromiseObj (Rejected (TypeError ''Cannot read properties of undefined''))),
      (BodyReadable True 16384)\<lparr>listeners := [(''error'', Reject), (''end'', EndTeardown)]\<rparr>)
   \<and> run node [Consume (Some kJSONType), Push (Some ''not json''), Push None]
        (BodyReadable True 16384) =
      (BodyReadable True 16384)
        \<lparr>listeners := [(''error'', Reject), (''end'', EndTeardown)],
         buffer := [''not json''], state_length := 8, ended := True\<rparr>
   \<and> \<not> destroyed (run node [Consume (Some kJSONType), Push (Some ''not json''), Push None]
                      (BodyReadable True 16384))"
  by (simp add: eval_defs)

text \<open>No sequence of calls on a fresh stream ever installs the lock of a promise.\<close>

fun is_acc_lock :: "'j kbody \<Rightarrow> bool" where
  "is_acc_lock (AccLock l) = True"
| "is_acc_lock Undefined = False"
| "is_acc_lock Null = False"
| "is_acc_lock (WebLock l) = False"

lemma kbody_push_not_acc:
  "\<not> is_acc_lock (kBody s) \<Longrightarrow> \<not> is_acc_lock (kBody (snd (kbody_push node val s)))"
  by (cases "kBody s")
     (simp_all add: kbody_push_def web_push_def Let_def split: option.splits sum.splits)

lemma drain_not_acc:
  "buffer s = cs \<Longrightarrow> \<not> is_acc_lock (kBody s) \<Longrightarrow> \<not> is_acc_lock (kBody (snd (drain node s)))"
proof (induction cs arbitrary: s)
  case Nil
  then show ?case by (simp add: drain_Nil)
next
  case (Cons c cs)
  obtain r s1 where p: "kbody_push node (Some c) (s\<lparr>buffer := cs\<rparr>) = (r, s1)"
    by (cases "kbody_push node (Some c) (s\<lparr>buffer := cs\<rparr>)")
  have na: "\<not> is_acc_lock (kBody s1)"
    using kbody_push_not_acc [of "s\<lparr>buffer := cs\<rparr>" node "Some c"] Cons.prems(2) p by simp
  have bf: "buffer s1 = cs"
    using kbody_push_buffer [of node "Some c" "s\<lparr>buffer := cs\<rparr>"] p by simp
  show ?case
  proof (cases "truthy (kBody s)")
    case False
    with Cons.prems show ?thesis
      by (simp add: drain_Cons [OF Cons.prems(1)])
  next
    case True
    show ?thesis
    proof (cases r)
      case (Throws e)
      with True p na show ?thesis
        by (simp add: drain_Cons [OF Cons.prems(1)])
    next
      case (Returns b)
      with True p have "drain node s = drain node s1"
        by (simp add: drain_Cons [OF Cons.prems(1)])
      with Cons.IH [OF bf na] show ?thesis
        by simp
    qed
  qed
qed

lemma start_not_acc:
  assumes "\<not> is_acc_lock (kBody s)"
  shows "\<not> is_acc_lock (kBody (snd (start node s)))"
proof (cases "listenerCount ''data'' s \<noteq> 0")
  case True
  with assms show ?thesis by (simp add: start_def)
next
  case False
  obtain r s1 where d: "drain node s = (r, s1)"
    by (cases "drain node s")
  have l1: "\<not> is_acc_lock (kBody s1)"
    using drain_not_acc [OF refl assms, of node] d by simp
  obtain r2 s2 where p: "kbody_push node None s1 = (r2, s2)"
    by (cases "kbody_push node None s1")
  have l2: "\<not> is_acc_lock (kBody s2)"
    using kbody_push_not_acc [OF l1, of node None] p by simp
  show ?thesis
    using False d l1 p l2
    by (cases r; cases r2) (simp_all add: start_def read_hook_def)
qed

lemma consume_not_acc:
  assumes "\<not> is_acc_lock (kBody s)"
  shows "\<not> is_acc_lock (kBody (snd (consume node type s)))"
proof (cases "bodyUsed s \<or> truthy (kBody s)")
  case True
  with assms show ?thesis by (auto simp add: consume_def)
next
  case False
  show ?thesis
  proof (cases type)
    case None
    with False show ?thesis by (simp add: consume_def)
  next
    case (Some t)
    show ?thesis
    proof (cases "t = kWebStreamType")
      case True
      let ?i = "(Readable_on ''end'' EndTeardown (Readable_on ''error'' ControllerError s))
                  \<lparr>kBody := WebLock \<lparr>wl_used = False,
                                      wl_controller = Some (new_controller (16 * 1024))\<rparr>\<rparr>"
      obtain r s1 where p: "start node ?i = (r, s1)"
        by (cases "start node ?i")
      have "\<not> is_acc_lock (kBody s1)"
        using start_not_acc [of ?i node] p by simp
      with False Some True p show ?thesis
        by (cases r) (simp_all add: consume_def source_start_def)
    next
      case ne: False
      with False Some assms show ?thesis
        by (simp add: consume_def promise_executor_def consume_this_def get_type_def
              Readable_on_kBody Let_def)
    qed
  qed
qed

lemma legacy_gate_not_acc:
  "\<not> is_acc_lock (kBody s) \<Longrightarrow> \<not> is_acc_lock (kBody (snd (legacy_gate node s)))"
  by (cases "kBody s") (simp_all add: legacy_gate_def consume_not_acc)

lemma step_not_acc:
  assumes "\<not> is_acc_lock (kBody s)"
  shows "\<not> is_acc_lock (kBody (step node c s))"
proof -
  obtain r g where g: "legacy_gate node s = (r, g)"
    by (cases "legacy_gate node s")
  have ng: "\<not> is_acc_lock (kBody g)"
    using legacy_gate_not_acc [OF assms, of node] g by simp
  show ?thesis
  proof (cases c)
    case (Push val)
    with assms show ?thesis
      by (simp add: push_def kbody_push_not_acc Readable_push_kBody)
  next
    case (Consume type)
    with assms show ?thesis
      by (simp add: consume_not_acc)
  qed (use assms g ng in \<open>cases r;
         simp add: destroy_kBody read_method_def resume_def pipe_def on_method_def
           addListener_def Readable_read_kBody Readable_on_kBody Readable_resume_kBody
           Readable_pipe_kBody pull_def read_hook_def cancel_def run_microtask_def
           Readable_push_kBody\<close>)+
qed

lemma acc_lock_unreachable:
  "\<not> is_acc_lock (kBody (run node cs (BodyReadable d h)))"
proof -
  have "\<not> is_acc_lock (kBody s) \<Longrightarrow> \<not> is_acc_lock (kBody (run node cs s))" for s :: "'a body_readable"
    by (induction cs arbitrary: s) (simp_all add: step_not_acc)
  then show ?thesis
    by (simp add: BodyReadable_def)
qed

text \<open>
  C10. The claim is that in the four modes of a promise a push returns \<^verbatim>\<open>false\<close>
  only after the teardown or after an error of the accumulation. In the code no such
  mode ever gets its lock, so after \<^verbatim>\<open>text()\<close> the pushes go to the base stream:
  the end sentinel returns \<^verbatim>\<open>false\<close>, and with a high-water mark of 2 so does the
  chunk \<^verbatim>\<open>"ab"\<close>, on a stream that is not destroyed and has met no error.
\<close>

theorem text_push_reports_backpressure:
  "fst (push node None (snd (text_method node (BodyReadable True 16384)))) = Returns False
   \<and> \<not> destroyed (snd (push node None (snd (text_method node (BodyReadable True 16384)))))
   \<and> errored (snd (push node None (snd (text_method node (BodyReadable True 16384))))) = None
   \<and> fst (push node (Some ''ab'') (snd (text_method node (BodyReadable True 2)))) = Returns False
   \<and> \<not> destroyed (snd (push node (Some ''ab'') (snd (text_method node (BodyReadable True 2)))))
   \<and> errored (snd (push node (Some ''ab'') (snd (text_method node (BodyReadable True 2))))) = None"
  by (simp add: eval_defs)

text \<open>
  What the functions of the lock do once a lock exists: run under a receiver whose
  \<^verbatim>\<open>type\<close> is the type, the same function installs the lock, and the pushes resolve
  the text promise to the concatenation, resolve the json promise to the parsed value,
  and destroy the stream with the node failure.
\<close>

lemma text_lock_as_intended:
  "promise_of (run node_digit [Push (Some ''ab''), Push (Some ''cd''), Push None]
                 (snd (promise_executor node_digit (JSObject (Some kTextType)) kTextType
                         (BodyReadable True 16384))))
     = Resolved (VBody (StrBody ''abcd''))"
  by (simp add: eval_defs drain_Nil)

lemma json_lock_as_intended:
  "promise_of (run node_digit [Push (Some ''1''), Push None]
                 (snd (promise_executor node_digit (JSObject (Some kJSONType)) kJSONType
                         (BodyReadable True 16384))))
     = Resolved (VJson 1)
   \<and> destroyed (run node_digit [Push (Some ''not json''), Push None]
                 (snd (promise_executor node_digit (JSObject (Some kJSONType)) kJSONType
                         (BodyReadable True 16384))))
   \<and> errored (run node_digit [Push (Some ''not json''), Push None]
                 (snd (promise_executor node_digit (JSObject (Some kJSONType)) kJSONType
                         (BodyReadable True 16384))))
       = Some (Error ''SyntaxError'')"
  by (simp add: eval_defs drain_Nil)

end
